theory Spec2Isabelle
  imports Main
begin

section \<open>Identifiers, errors and stored documents\<close>

text \<open>
  The backend keeps two MongoDB collections, \<open>delivery\<close> and \<open>deliveryitem\<close>, and
  exposes HTTP handlers over them (main.py). A handler either returns a serialised
  document or raises; what it wrote to the store before raising stays written. Every
  handler is therefore a function from the store to a result and the store afterwards.

  Timestamps are readings of the clock (\<open>datetime.now(timezone.utc)\<close>), given to a
  handler as arguments. Python integers are unbounded, hence \<open>int\<close>.
\<close>

type_synonym timestamp = int

text \<open>
  \<open>bson.ObjectId(s)\<close> accepts a string of 24 characters that \<open>bytes.fromhex\<close> reads,
  and holds the bytes read. \<open>bytes.fromhex\<close> reads pairs of hexadecimal digits in either
  letter case and skips ASCII whitespace before a pair, so two spellings that differ only
  in letter case are the same identifier, and a string with whitespace gives fewer than
  twelve bytes. \<open>str\<close> prints the bytes as lower-case digits; the model keeps these digits.
\<close>

datatype objectid = ObjectId string

datatype error =
    HTTPException nat string
  | RequestValidationError
  | ValidationError
  | InvalidId
  | DuplicateKeyError
  | OverflowError

definition hexdigits :: string where
  "hexdigits = ''0123456789abcdefABCDEF''"

definition hex_lower :: "char \<Rightarrow> char" where
  "hex_lower c = (case map_of (zip ''ABCDEF'' ''abcdef'') c of Some l \<Rightarrow> l | None \<Rightarrow> c)"

definition whitespace :: string where
  "whitespace = [CHR 0x09, CHR 0x0A, CHR 0x0B, CHR 0x0C, CHR 0x0D, CHR '' '']"

fun fromhex :: "string \<Rightarrow> string option" where
  "fromhex [] = Some []"
| "fromhex [c] = (if c \<in> set whitespace then Some [] else None)"
| "fromhex (c # c' # cs) =
     (if c \<in> set whitespace then fromhex (c' # cs)
      else if c \<in> set hexdigits \<and> c' \<in> set hexdigits
      then map_option (\<lambda>h. hex_lower c # hex_lower c' # h) (fromhex cs)
      else None)"

definition ObjectId_parse :: "string \<Rightarrow> objectid option" where
  "ObjectId_parse s = (if length s = 24 then map_option ObjectId (fromhex s) else None)"

definition str :: "objectid \<Rightarrow> string" where
  "str x = (case x of ObjectId h \<Rightarrow> h)"

text \<open>main.py, \<open>oid\<close>: an unparsable identifier is answered with status 400.\<close>

definition oid :: "string \<Rightarrow> error + objectid" where
  "oid id_str =
     (case ObjectId_parse id_str of
        Some x \<Rightarrow> Inr x
      | None \<Rightarrow> Inl (HTTPException 400 ''Invalid ID''))"

text \<open>
  The driver writes an integer as a BSON integer of at most eight bytes; encoding a larger
  one raises \<open>OverflowError\<close> before anything is sent to the store.
\<close>

definition int64 :: "int \<Rightarrow> bool" where
  "int64 n = (- 9223372036854775808 \<le> n \<and> n \<le> 9223372036854775807)"

text \<open>The schema classes of schemas.py, one record each.\<close>

record Location =
  rack :: string
  slot :: string
  zone :: "string option"
  level :: "string option"

record DeliveryItem =
  delivery_id :: string
  product_id :: "string option"
  variant_id :: "string option"
  expectedQty :: int
  receivedQty :: int
  status :: string
  "notes" :: "string option"
  location :: "Location option"

record Delivery =
  supplier :: "string option"
  reference :: "string option"
  status :: string
  expectedDate :: "timestamp option"
  receivedQty :: int
  meta :: "(string \<times> string) list"

record DeliveryCreateRequest =
  supplier :: "string option"
  reference :: "string option"
  expectedDate :: "timestamp option"
  meta :: "(string \<times> string) list"

record DeliveryItemCreateRequest =
  product_id :: "string option"
  variant_id :: "string option"
  expectedQty :: int
  "notes" :: "string option"

text \<open>The request bodies declared in main.py.\<close>

record ReceiveItemInput =
  itemId :: string
  qty :: int

record ApprovePayload =
  "notes" :: "string option"

record StorePayload =
  rack :: string
  slot :: string
  zone :: "string option"
  level :: "string option"

definition DeliveryStatus :: "string list" where
  "DeliveryStatus = [''DRAFT'', ''PENDING'', ''IN_QUALITY_CHECK'', ''COMPLETED'']"

definition DeliveryItemStatus :: "string list" where
  "DeliveryItemStatus = [''PENDING'', ''RECEIVED'', ''QUALITY_CHECK'', ''APPROVED'', ''STORED'']"

text \<open>
  Constructing a schema object validates its fields (\<open>Literal\<close> status, \<open>ge=0\<close>
  quantities); a violation raises pydantic's \<open>ValidationError\<close> inside the handler.
\<close>

definition new_Delivery :: "Delivery \<Rightarrow> error + Delivery" where
  "new_Delivery d =
     (if Delivery.status d \<in> set DeliveryStatus \<and> 0 \<le> Delivery.receivedQty d
      then Inr d else Inl ValidationError)"

definition new_DeliveryItem :: "DeliveryItem \<Rightarrow> error + DeliveryItem" where
  "new_DeliveryItem i =
     (if 0 \<le> DeliveryItem.expectedQty i \<and> 0 \<le> DeliveryItem.receivedQty i
         \<and> DeliveryItem.status i \<in> set DeliveryItemStatus
      then Inr i else Inl ValidationError)"

text \<open>
  A stored document is the schema object's fields (\<open>body\<close>) together with \<open>_id\<close>
  (\<open>ident\<close>), \<open>created_at\<close> and \<open>updated_at\<close>. A stored status is any string: the
  store may hold values the schema no longer lists. A serialised document carries the
  identifier as a string under \<open>id\<close>.
\<close>

record ('i, 'a) document =
  ident :: 'i
  created_at :: timestamp
  updated_at :: timestamp
  body :: 'a

record world =
  db_delivery :: "(objectid, Delivery) document list"
  db_deliveryitem :: "(objectid, DeliveryItem) document list"

text \<open>
  main.py, \<open>serialize\<close>: \<open>_id\<close> becomes the string \<open>id\<close>; datetimes are printed in
  ISO format, which the model leaves as the timestamp. An absent document
  (\<open>if not doc: return doc\<close>) is \<open>None\<close> under \<open>map_option\<close>.
\<close>

definition serialize :: "(objectid, 'a) document \<Rightarrow> (string, 'a) document" where
  "serialize doc =
     \<lparr>ident = str (ident doc), created_at = created_at doc,
      updated_at = updated_at doc, body = body doc\<rparr>"

section \<open>The collection operations used by the handlers\<close>

text \<open>
  A collection is the list of its documents in insertion order. \<open>find_one\<close> returns the
  first document matching the query, \<open>update_one\<close> rewrites the first match and reports
  \<open>matched_count\<close>.
\<close>

abbreviation find_one :: "('d \<Rightarrow> bool) \<Rightarrow> 'd list \<Rightarrow> 'd option" where
  "find_one q coll \<equiv> List.find q coll"

definition by_id :: "'i \<Rightarrow> ('i, 'a) document \<Rightarrow> bool" where
  "by_id x d = (ident d = x)"

fun update_one :: "('d \<Rightarrow> bool) \<Rightarrow> ('d \<Rightarrow> 'd) \<Rightarrow> 'd list \<Rightarrow> nat \<times> 'd list" where
  "update_one q upd [] = (0, [])"
| "update_one q upd (d # ds) =
     (if q d then (1, upd d # ds)
      else (case update_one q upd ds of (n, ds') \<Rightarrow> (n, d # ds')))"

text \<open>
  The pipeline \<open>[{$match: q}, {$group: {_id: None, sum: {$sum: "$receivedQty"}}}]\<close>:
  one row holding the sum when some document matches, no row otherwise.
\<close>

definition aggregate :: "('d \<Rightarrow> bool) \<Rightarrow> ('d \<Rightarrow> int) \<Rightarrow> 'd list \<Rightarrow> int list" where
  "aggregate q val coll =
     (case filter q coll of [] \<Rightarrow> [] | m # ms \<Rightarrow> [sum_list (map val (m # ms))])"

text \<open>
  Modelled from the spec: \<open>create_document\<close> of database.py, which is not among the
  sources. The spec says that every persisted entity has an opaque unique identifier
  and that \<open>created_at\<close> and \<open>updated_at\<close> are filled in by the store layer. The
  identifier the driver generates is the argument \<open>new_id\<close>; the store refuses an
  identifier it already holds.
\<close>

definition create_document ::
  "(objectid, 'a) document list \<Rightarrow> 'a \<Rightarrow> timestamp \<Rightarrow> objectid
     \<Rightarrow> (error + string) \<times> (objectid, 'a) document list" where
  "create_document coll data now new_id =
     (if new_id \<in> ident ` set coll then (Inl DuplicateKeyError, coll)
      else (Inr (str new_id),
            coll @ [\<lparr>ident = new_id, created_at = now, updated_at = now, body = data\<rparr>]))"

section \<open>Deliveries\<close>

definition create_delivery ::
  "'x DeliveryCreateRequest_scheme \<Rightarrow> timestamp \<Rightarrow> objectid \<Rightarrow> world
     \<Rightarrow> (error + (string, Delivery) document option) \<times> world" where
  "create_delivery payload now fresh w =
     (case new_Delivery
             \<lparr>Delivery.supplier = DeliveryCreateRequest.supplier payload,
              Delivery.reference = DeliveryCreateRequest.reference payload,
              Delivery.status = ''PENDING'',
              Delivery.expectedDate = DeliveryCreateRequest.expectedDate payload,
              Delivery.receivedQty = 0,
              Delivery.meta = (if DeliveryCreateRequest.meta payload = [] then []
                               else DeliveryCreateRequest.meta payload)\<rparr> of
        Inl e \<Rightarrow> (Inl e, w)
      | Inr delivery \<Rightarrow>
          (case create_document (db_delivery w) delivery now fresh of
             (Inl e, coll) \<Rightarrow> (Inl e, w\<lparr>db_delivery := coll\<rparr>)
           | (Inr new_id, coll) \<Rightarrow>
               (let w' = w\<lparr>db_delivery := coll\<rparr> in
                case ObjectId_parse new_id of
                  None \<Rightarrow> (Inl InvalidId, w')
                | Some x \<Rightarrow>
                    (Inr (map_option serialize (find_one (by_id x) (db_delivery w'))), w'))))"

text \<open>
  The query of \<open>list_deliveries\<close> is a dictionary with the one key \<open>status\<close>, whose
  value is a dictionary of operators. Every stored delivery has a status, so
  \<open>$exists\<close> holds exactly when its operand is true.
\<close>

datatype operand = Strs "string list" | Flag bool

type_synonym operators = "string \<rightharpoonup> operand"

definition matches_status :: "operators \<Rightarrow> string \<Rightarrow> bool" where
  "matches_status ops s =
     ((case ops ''$in'' of Some (Strs xs) \<Rightarrow> s \<in> set xs | _ \<Rightarrow> True)
      \<and> (case ops ''$exists'' of Some (Flag b) \<Rightarrow> b | _ \<Rightarrow> True)
      \<and> (case ops ''$nin'' of Some (Strs xs) \<Rightarrow> s \<notin> set xs | _ \<Rightarrow> True))"

definition matches :: "(string \<rightharpoonup> operators) \<Rightarrow> (objectid, Delivery) document \<Rightarrow> bool" where
  "matches filt d =
     (case filt ''status'' of
        None \<Rightarrow> True
      | Some ops \<Rightarrow> matches_status ops (Delivery.status (body d)))"

text \<open>
  The query parameters are validated before the handler runs: \<open>limit\<close> between 1 and
  500 (100 when absent), each requested status one of \<open>DeliveryStatus\<close>. The cursor
  sorts by \<open>created_at\<close> descending and then cuts at \<open>limit\<close>.
\<close>

definition list_deliveries ::
  "string list option \<Rightarrow> int option \<Rightarrow> world \<Rightarrow> error + (string, Delivery) document list" where
  "list_deliveries status_in limit_q w =
     (let limit = (case limit_q of None \<Rightarrow> 100 | Some n \<Rightarrow> n) in
      if \<not> (1 \<le> limit \<and> limit \<le> 500)
         \<or> \<not> (case status_in of None \<Rightarrow> True
                | Some xs \<Rightarrow> list_all (\<lambda>s. s \<in> set DeliveryStatus) xs)
      then Inl RequestValidationError
      else
        (let filt0 = (case status_in of
                        Some (x # xs) \<Rightarrow> [''status'' \<mapsto> [''$in'' \<mapsto> Strs (x # xs)]]
                      | _ \<Rightarrow> Map.empty);
             ops0 = (case filt0 ''status'' of
                       Some ops \<Rightarrow> ops
                     | None \<Rightarrow> [''$exists'' \<mapsto> Flag True]);
             nin0 = (case ops0 ''$nin'' of Some (Strs ys) \<Rightarrow> ys | _ \<Rightarrow> []);
             ops1 = ops0(''$nin'' \<mapsto> Strs (remdups (nin0 @ [''RECEIVED''])));
             filt = filt0(''status'' \<mapsto> ops1);
             docs = take (nat limit)
                      (sort_key (\<lambda>d. - created_at d) (filter (matches filt) (db_delivery w)))
         in Inr (map serialize docs)))"

section \<open>Delivery items\<close>

definition add_delivery_item ::
  "string \<Rightarrow> 'x DeliveryItemCreateRequest_scheme \<Rightarrow> timestamp \<Rightarrow> objectid \<Rightarrow> world
     \<Rightarrow> (error + (string, DeliveryItem) document option) \<times> world" where
  "add_delivery_item delivery_id' payload now fresh w =
     (case oid delivery_id' of
        Inl e \<Rightarrow> (Inl e, w)
      | Inr x \<Rightarrow>
          (case find_one (by_id x) (db_delivery w) of
             None \<Rightarrow> (Inl (HTTPException 404 ''Delivery not found''), w)
           | Some _ \<Rightarrow>
               (case new_DeliveryItem
                       \<lparr>DeliveryItem.delivery_id = delivery_id',
                        DeliveryItem.product_id = DeliveryItemCreateRequest.product_id payload,
                        DeliveryItem.variant_id = DeliveryItemCreateRequest.variant_id payload,
                        DeliveryItem.expectedQty = DeliveryItemCreateRequest.expectedQty payload,
                        DeliveryItem.receivedQty = 0,
                        DeliveryItem.status = ''PENDING'',
                        DeliveryItem.notes = DeliveryItemCreateRequest.notes payload,
                        DeliveryItem.location = None\<rparr> of
                  Inl e \<Rightarrow> (Inl e, w)
                | Inr item \<Rightarrow>
                    (case create_document (db_deliveryitem w) item now fresh of
                       (Inl e, coll) \<Rightarrow> (Inl e, w\<lparr>db_deliveryitem := coll\<rparr>)
                     | (Inr new_id, coll) \<Rightarrow>
                         (let w' = w\<lparr>db_deliveryitem := coll\<rparr> in
                          case ObjectId_parse new_id of
                            None \<Rightarrow> (Inl InvalidId, w')
                          | Some y \<Rightarrow>
                              (Inr (map_option serialize (find_one (by_id y) (db_deliveryitem w'))),
                               w'))))))"

text \<open>
  The body of the loop of \<open>receive_items\<close>, for one entry \<open>it\<close>: look the item up by
  identifier and by the delivery identifier as the caller spelt it, reject a negative
  quantity, write the new quantity and status. The write raises when the new quantity
  does not fit eight bytes, and then nothing is written.
\<close>

definition receive_entry ::
  "string \<Rightarrow> timestamp \<Rightarrow> ReceiveItemInput \<Rightarrow> world \<Rightarrow> (error + unit) \<times> world" where
  "receive_entry delivery_id' now it w =
     (case oid (itemId it) of
        Inl e \<Rightarrow> (Inl e, w)
      | Inr x \<Rightarrow>
          (case find_one (\<lambda>d. ident d = x \<and> DeliveryItem.delivery_id (body d) = delivery_id')
                  (db_deliveryitem w) of
             None \<Rightarrow>
               (Inl (HTTPException 400 (''Item '' @ itemId it @ '' not found for this delivery'')), w)
           | Some item \<Rightarrow>
               if qty it < 0 then (Inl (HTTPException 400 ''qty must be >= 0''), w)
               else
                 (let new_received = DeliveryItem.receivedQty (body item) + qty it;
                      status = (if qty it > 0 then ''RECEIVED''
                                else DeliveryItem.status (body item))
                  in if \<not> int64 new_received then (Inl OverflowError, w)
                     else
                       (Inr (),
                        w\<lparr>db_deliveryitem :=
                            snd (update_one (by_id (ident item))
                                   (\<lambda>d. d\<lparr>updated_at := now,
                                           body := (body d)\<lparr>DeliveryItem.receivedQty := new_received,
                                                            DeliveryItem.status := status\<rparr>\<rparr>)
                                   (db_deliveryitem w))\<rparr>))))"

text \<open>
  The loop: entry \<open>k\<close> reads the clock as \<open>clock k\<close>; the first failing entry ends the
  request, and the store stays as the earlier entries left it. \<open>total_added\<close> is
  accumulated as in the source.
\<close>

fun receive_loop ::
  "string \<Rightarrow> (nat \<Rightarrow> timestamp) \<Rightarrow> nat \<Rightarrow> ReceiveItemInput list \<Rightarrow> int \<Rightarrow> world
     \<Rightarrow> (error + int) \<times> world" where
  "receive_loop delivery_id' clock k [] total_added w = (Inr total_added, w)"
| "receive_loop delivery_id' clock k (it # its) total_added w =
     (case receive_entry delivery_id' (clock k) it w of
        (Inl e, w') \<Rightarrow> (Inl e, w')
      | (Inr _, w') \<Rightarrow> receive_loop delivery_id' clock (Suc k) its (total_added + qty it) w')"

text \<open>
  After the loop the handler sums \<open>receivedQty\<close> over the matched items and writes the
  sum to the delivery. When the exact sum leaves the eight-byte range, \<open>$sum\<close> answers a
  double; for a sum above the range its integer value is above the range too, and the
  write raises. The model keeps the exact sum, which fails the same test. (A sum below
  the range needs negative stored quantities, which no handler writes.)
\<close>

definition receive_items ::
  "string \<Rightarrow> ReceiveItemInput list \<Rightarrow> (nat \<Rightarrow> timestamp) \<Rightarrow> world
     \<Rightarrow> (error + (string, Delivery) document option) \<times> world" where
  "receive_items delivery_id' payload clock w =
     (case oid delivery_id' of
        Inl e \<Rightarrow> (Inl e, w)
      | Inr x \<Rightarrow>
          (case find_one (by_id x) (db_delivery w) of
             None \<Rightarrow> (Inl (HTTPException 404 ''Delivery not found''), w)
           | Some _ \<Rightarrow>
               (case receive_loop delivery_id' clock 0 payload 0 w of
                  (Inl e, w1) \<Rightarrow> (Inl e, w1)
                | (Inr total_added, w1) \<Rightarrow>
                    (let agg = aggregate (\<lambda>d. DeliveryItem.delivery_id (body d) = delivery_id')
                                 (\<lambda>d. DeliveryItem.receivedQty (body d)) (db_deliveryitem w1);
                         new_total = fold (\<lambda>r _. r) agg 0
                     in if \<not> int64 new_total then (Inl OverflowError, w1)
                        else
                          (let w2 = w1\<lparr>db_delivery :=
                                      snd (update_one (by_id x)
                                             (\<lambda>d. d\<lparr>updated_at := clock (length payload),
                                                     body := (body d)\<lparr>Delivery.receivedQty := new_total\<rparr>\<rparr>)
                                             (db_delivery w1))\<rparr>
                           in (Inr (map_option serialize (find_one (by_id x) (db_delivery w2))),
                               w2))))))"

text \<open>
  What a batch adds to the item with identifier \<open>y\<close>: the quantities of the entries
  whose \<open>itemId\<close> parses to \<open>y\<close>. It is used to state the effect of a whole batch.
\<close>

definition received_for :: "objectid \<Rightarrow> ReceiveItemInput list \<Rightarrow> int" where
  "received_for y its = sum_list (map qty (filter (\<lambda>it. oid (itemId it) = Inr y) its))"

text \<open>Whether a batch carries a positive quantity for the item with identifier \<open>y\<close>.\<close>

definition received_positive :: "objectid \<Rightarrow> ReceiveItemInput list \<Rightarrow> bool" where
  "received_positive y its = list_ex (\<lambda>it. oid (itemId it) = Inr y \<and> 0 < qty it) its"

text \<open>The four status commands: one \<open>update_one\<close> each, then the \<open>matched_count\<close> test.\<close>

definition send_to_quality ::
  "string \<Rightarrow> timestamp \<Rightarrow> world \<Rightarrow> (error + (string, Delivery) document option) \<times> world" where
  "send_to_quality delivery_id' now w =
     (case oid delivery_id' of
        Inl e \<Rightarrow> (Inl e, w)
      | Inr x \<Rightarrow>
          (case update_one (by_id x)
                  (\<lambda>d. d\<lparr>updated_at := now,
                          body := (body d)\<lparr>Delivery.status := ''IN_QUALITY_CHECK''\<rparr>\<rparr>)
                  (db_delivery w) of
             (matched_count, coll) \<Rightarrow>
               (let w' = w\<lparr>db_delivery := coll\<rparr> in
                if matched_count = 0 then (Inl (HTTPException 404 ''Delivery not found''), w')
                else (Inr (map_option serialize (find_one (by_id x) (db_delivery w'))), w'))))"

definition complete_delivery ::
  "string \<Rightarrow> timestamp \<Rightarrow> world \<Rightarrow> (error + (string, Delivery) document option) \<times> world" where
  "complete_delivery delivery_id' now w =
     (case oid delivery_id' of
        Inl e \<Rightarrow> (Inl e, w)
      | Inr x \<Rightarrow>
          (case update_one (by_id x)
                  (\<lambda>d. d\<lparr>updated_at := now,
                          body := (body d)\<lparr>Delivery.status := ''COMPLETED''\<rparr>\<rparr>)
                  (db_delivery w) of
             (matched_count, coll) \<Rightarrow>
               (let w' = w\<lparr>db_delivery := coll\<rparr> in
                if matched_count = 0 then (Inl (HTTPException 404 ''Delivery not found''), w')
                else (Inr (map_option serialize (find_one (by_id x) (db_delivery w'))), w'))))"

definition approve_item ::
  "string \<Rightarrow> 'x ApprovePayload_scheme \<Rightarrow> timestamp \<Rightarrow> world
     \<Rightarrow> (error + (string, DeliveryItem) document option) \<times> world" where
  "approve_item item_id payload now w =
     (case oid item_id of
        Inl e \<Rightarrow> (Inl e, w)
      | Inr x \<Rightarrow>
          (case update_one (by_id x)
                  (\<lambda>d. d\<lparr>updated_at := now,
                          body := (body d)\<lparr>DeliveryItem.status := ''APPROVED'',
                                           DeliveryItem.notes := ApprovePayload.notes payload\<rparr>\<rparr>)
                  (db_deliveryitem w) of
             (matched_count, coll) \<Rightarrow>
               (let w' = w\<lparr>db_deliveryitem := coll\<rparr> in
                if matched_count = 0 then (Inl (HTTPException 404 ''Item not found''), w')
                else (Inr (map_option serialize (find_one (by_id x) (db_deliveryitem w'))), w'))))"

definition store_item ::
  "string \<Rightarrow> 'x StorePayload_scheme \<Rightarrow> timestamp \<Rightarrow> world
     \<Rightarrow> (error + (string, DeliveryItem) document option) \<times> world" where
  "store_item item_id payload now w =
     (let location = \<lparr>Location.rack = StorePayload.rack payload,
                      Location.slot = StorePayload.slot payload,
                      Location.zone = StorePayload.zone payload,
                      Location.level = StorePayload.level payload\<rparr> in
      case oid item_id of
        Inl e \<Rightarrow> (Inl e, w)
      | Inr x \<Rightarrow>
          (case update_one (by_id x)
                  (\<lambda>d. d\<lparr>updated_at := now,
                          body := (body d)\<lparr>DeliveryItem.status := ''STORED'',
                                           DeliveryItem.location := Some location\<rparr>\<rparr>)
                  (db_deliveryitem w) of
             (matched_count, coll) \<Rightarrow>
               (let w' = w\<lparr>db_deliveryitem := coll\<rparr> in
                if matched_count = 0 then (Inl (HTTPException 404 ''Item not found''), w')
                else (Inr (map_option serialize (find_one (by_id x) (db_deliveryitem w'))), w'))))"

section \<open>The effect of a batch, in the words of the specification\<close>

text \<open>
  The specification describes receiving entry by entry. The three definitions below
  follow its words, not the handler, and the handler is compared with them further down.
  An entry applies when its \<open>itemId\<close> parses, its \<open>qty\<close> is not negative, and an item
  with that identifier and the \<open>delivery_id\<close> of the request is stored whose
  \<open>receivedQty\<close>, with the quantities \<open>pre\<close> has already added to it and with this
  \<open>qty\<close>, still fits eight bytes.
\<close>

definition spec_entry_applies ::
  "string \<Rightarrow> world \<Rightarrow> ReceiveItemInput list \<Rightarrow> ReceiveItemInput \<Rightarrow> bool" where
  "spec_entry_applies delivery_id' w pre it =
     (case oid (itemId it) of
        Inl _ \<Rightarrow> False
      | Inr y \<Rightarrow>
          0 \<le> qty it
          \<and> list_ex (\<lambda>i. ident i = y \<and> DeliveryItem.delivery_id (body i) = delivery_id'
                        \<and> int64 (DeliveryItem.receivedQty (body i) + received_for y pre + qty it))
               (db_deliveryitem w))"

text \<open>
  The entries of a batch are taken in order and the first that does not apply ends the
  batch: \<open>spec_applied_entries\<close> is the prefix that applied.
\<close>

fun spec_applied_entries ::
  "string \<Rightarrow> world \<Rightarrow> ReceiveItemInput list \<Rightarrow> ReceiveItemInput list \<Rightarrow> ReceiveItemInput list" where
  "spec_applied_entries delivery_id' w pre [] = pre"
| "spec_applied_entries delivery_id' w pre (it # its) =
     (if spec_entry_applies delivery_id' w pre it
      then spec_applied_entries delivery_id' w (pre @ [it]) its else pre)"

text \<open>
  What the applied entries make of an item: the quantities that name it are added to
  \<open>receivedQty\<close>, the status becomes \<open>RECEIVED\<close> when one of them was positive and stays
  otherwise, and identifier, \<open>delivery_id\<close> and \<open>expectedQty\<close> stay.
\<close>

definition spec_item_after ::
  "ReceiveItemInput list \<Rightarrow> (objectid, DeliveryItem) document
     \<Rightarrow> (objectid, DeliveryItem) document \<Rightarrow> bool" where
  "spec_item_after applied i i' =
     (ident i' = ident i
      \<and> DeliveryItem.delivery_id (body i') = DeliveryItem.delivery_id (body i)
      \<and> DeliveryItem.expectedQty (body i') = DeliveryItem.expectedQty (body i)
      \<and> DeliveryItem.receivedQty (body i')
          = DeliveryItem.receivedQty (body i) + received_for (ident i) applied
      \<and> DeliveryItem.status (body i')
          = (if received_positive (ident i) applied then ''RECEIVED''
             else DeliveryItem.status (body i)))"

section \<open>Example data\<close>

text \<open>
  A small store used to evaluate the handlers: a delivery already marked completed, a
  delivery carrying the legacy status, and an item of the first delivery that is already
  stored and has a note.
\<close>

definition example_delivery :: "(objectid, Delivery) document" where
  "example_delivery =
     \<lparr>ident = ObjectId ''aaaaaaaaaaaaaaaaaaaaaaaa'', created_at = 1, updated_at = 1,
      body = \<lparr>Delivery.supplier = Some ''Acme'', Delivery.reference = None,
              Delivery.status = ''COMPLETED'', Delivery.expectedDate = None,
              Delivery.receivedQty = 0, Delivery.meta = []\<rparr>\<rparr>"

definition example_legacy :: "(objectid, Delivery) document" where
  "example_legacy =
     \<lparr>ident = ObjectId ''dddddddddddddddddddddddd'', created_at = 2, updated_at = 2,
      body = \<lparr>Delivery.supplier = None, Delivery.reference = None,
              Delivery.status = ''RECEIVED'', Delivery.expectedDate = None,
              Delivery.receivedQty = 0, Delivery.meta = []\<rparr>\<rparr>"

definition example_item :: "(objectid, DeliveryItem) document" where
  "example_item =
     \<lparr>ident = ObjectId ''bbbbbbbbbbbbbbbbbbbbbbbb'', created_at = 3, updated_at = 3,
      body = \<lparr>DeliveryItem.delivery_id = ''aaaaaaaaaaaaaaaaaaaaaaaa'',
              DeliveryItem.product_id = None, DeliveryItem.variant_id = None,
              DeliveryItem.expectedQty = 10, DeliveryItem.receivedQty = 0,
              DeliveryItem.status = ''STORED'', DeliveryItem.notes = Some ''fragile'',
              DeliveryItem.location = None\<rparr>\<rparr>"

definition example_world :: world where
  "example_world =
     \<lparr>db_delivery = [example_delivery, example_legacy], db_deliveryitem = [example_item]\<rparr>"

text \<open>
  A clock, and the store after the item received 25 pieces against the 10 expected: once
  with the delivery re-aggregated (a completed request), once with the delivery as it was
  (a request that failed after its first entry).
\<close>

definition example_clock :: "nat \<Rightarrow> timestamp" where
  "example_clock k = 10 + int k"

definition example_item_received :: "(objectid, DeliveryItem) document" where
  "example_item_received =
     example_item\<lparr>updated_at := 10,
        body := (body example_item)\<lparr>DeliveryItem.receivedQty := 25,
                                     DeliveryItem.status := ''RECEIVED''\<rparr>\<rparr>"

definition example_delivery_received :: "(objectid, Delivery) document" where
  "example_delivery_received =
     example_delivery\<lparr>updated_at := 11,
        body := (body example_delivery)\<lparr>Delivery.receivedQty := 25\<rparr>\<rparr>"

definition example_world_received :: world where
  "example_world_received =
     \<lparr>db_delivery = [example_delivery_received, example_legacy],
      db_deliveryitem = [example_item_received]\<rparr>"

definition example_world_partial :: world where
  "example_world_partial =
     \<lparr>db_delivery = [example_delivery, example_legacy],
      db_deliveryitem = [example_item_received]\<rparr>"

text \<open>
  The completed store again with the delivery's \<open>receivedQty\<close> written back to 0, and the
  first store with the item's \<open>receivedQty\<close> at the largest eight-byte integer.
\<close>

definition example_delivery_zeroed :: "(objectid, Delivery) document" where
  "example_delivery_zeroed =
     example_delivery_received\<lparr>updated_at := 10,
        body := (body example_delivery_received)\<lparr>Delivery.receivedQty := 0\<rparr>\<rparr>"

definition example_item_full :: "(objectid, DeliveryItem) document" where
  "example_item_full =
     example_item\<lparr>body := (body example_item)\<lparr>DeliveryItem.receivedQty := 9223372036854775807\<rparr>\<rparr>"

definition example_world_full :: world where
  "example_world_full =
     \<lparr>db_delivery = [example_delivery, example_legacy], db_deliveryitem = [example_item_full]\<rparr>"

section \<open>Facts about the collection operations\<close>

lemmas example_defs = example_world_def example_delivery_def example_legacy_def example_item_def

lemmas received_defs = example_clock_def example_item_received_def
  example_delivery_received_def example_world_received_def example_world_partial_def
lemmas more_defs = example_delivery_zeroed_def example_item_full_def example_world_full_def

lemma update_one_None:
  "find_one q xs = None \<Longrightarrow> update_one q u xs = (0, xs)"
  by (induction xs) (auto split: if_splits)

lemma update_one_matched:
  "find_one q xs = Some d \<Longrightarrow> fst (update_one q u xs) = 1"
  by (induction xs) (auto split: if_splits prod.splits)

lemma find_update_one:
  "(\<And>d. q d \<Longrightarrow> q (u d)) \<Longrightarrow>
     find_one q (snd (update_one q u xs)) = map_option u (find_one q xs)"
  by (induction xs) (auto split: prod.splits)

lemma map_update_one:
  "(\<And>d. q d \<Longrightarrow> f (u d) = f d) \<Longrightarrow> map f (snd (update_one q u xs)) = map f xs"
  by (induction xs) (auto split: prod.splits)

lemma find_update_one_other:
  "(\<And>d. q d \<Longrightarrow> \<not> p d \<and> \<not> p (u d)) \<Longrightarrow>
     find_one p (snd (update_one q u xs)) = find_one p xs"
  by (induction xs) (auto split: prod.splits)

lemma update_one_found:
  assumes "find_one (by_id x) coll = Some d" and "\<And>d. ident (u d) = ident d"
  shows "\<exists>c. update_one (by_id x) u coll = (1, c) \<and> find_one (by_id x) c = Some (u d)"
proof -
  obtain n c where uc: "update_one (by_id x) u coll = (n, c)"
    by (cases "update_one (by_id x) u coll")
  from update_one_matched[OF assms(1), of u] uc have "n = 1" by simp
  moreover have "find_one (by_id x) (snd (update_one (by_id x) u coll))
                   = map_option u (find_one (by_id x) coll)"
    by (rule find_update_one) (simp add: by_id_def assms(2))
  ultimately show ?thesis using uc assms(1) by simp
qed

lemma update_one_distinct:
  "distinct (map ident xs) \<Longrightarrow>
     snd (update_one (by_id y) u xs) = map (\<lambda>i. if ident i = y then u i else i) xs"
proof (induction xs)
  case Nil
  then show ?case by simp
next
  case (Cons d ds)
  show ?case
  proof (cases "ident d = y")
    case True
    from Cons.prems have "ident d \<notin> set (map ident ds)" by simp
    then have "\<forall>i\<in>set ds. ident i \<noteq> ident d" by (metis image_eqI set_map)
    with True have "\<forall>i\<in>set ds. ident i \<noteq> y" by simp
    then have "map (\<lambda>i. if ident i = y then u i else i) ds = ds"
      by (simp add: map_idI)
    with True show ?thesis by (simp add: by_id_def)
  next
    case False
    with Cons show ?thesis by (auto simp: by_id_def split: prod.splits)
  qed
qed

lemma fold_aggregate:
  "fold (\<lambda>r _. r) (aggregate q val coll) 0 = sum_list (map val (filter q coll))"
  by (simp add: aggregate_def split: list.splits)

lemma send_to_quality_found:
  assumes "oid s = Inr x" and "find_one (by_id x) (db_delivery w) = Some d"
  shows "\<exists>w'. send_to_quality s now w =
           (Inr (Some (serialize (d\<lparr>updated_at := now,
                                     body := (body d)\<lparr>Delivery.status := ''IN_QUALITY_CHECK''\<rparr>\<rparr>))), w')
          \<and> find_one (by_id x) (db_delivery w') =
              Some (d\<lparr>updated_at := now, body := (body d)\<lparr>Delivery.status := ''IN_QUALITY_CHECK''\<rparr>\<rparr>)
          \<and> db_deliveryitem w' = db_deliveryitem w"
proof -
  let ?u = "\<lambda>d::(objectid, Delivery) document.
              d\<lparr>updated_at := now, body := (body d)\<lparr>Delivery.status := ''IN_QUALITY_CHECK''\<rparr>\<rparr>"
  from update_one_found[OF assms(2), of ?u] obtain c
    where "update_one (by_id x) ?u (db_delivery w) = (1, c)" "find_one (by_id x) c = Some (?u d)"
    by auto
  then show ?thesis using assms(1) by (simp add: send_to_quality_def)
qed

lemma send_to_quality_missing:
  assumes "oid s = Inr x" and "find_one (by_id x) (db_delivery w) = None"
  shows "send_to_quality s now w = (Inl (HTTPException 404 ''Delivery not found''), w)"
  using assms by (simp add: send_to_quality_def update_one_None)

lemma complete_delivery_found:
  assumes "oid s = Inr x" and "find_one (by_id x) (db_delivery w) = Some d"
  shows "\<exists>w'. complete_delivery s now w =
           (Inr (Some (serialize (d\<lparr>updated_at := now,
                                     body := (body d)\<lparr>Delivery.status := ''COMPLETED''\<rparr>\<rparr>))), w')
          \<and> find_one (by_id x) (db_delivery w') =
              Some (d\<lparr>updated_at := now, body := (body d)\<lparr>Delivery.status := ''COMPLETED''\<rparr>\<rparr>)
          \<and> db_deliveryitem w' = db_deliveryitem w"
proof -
  let ?u = "\<lambda>d::(objectid, Delivery) document.
              d\<lparr>updated_at := now, body := (body d)\<lparr>Delivery.status := ''COMPLETED''\<rparr>\<rparr>"
  from update_one_found[OF assms(2), of ?u] obtain c
    where "update_one (by_id x) ?u (db_delivery w) = (1, c)" "find_one (by_id x) c = Some (?u d)"
    by auto
  then show ?thesis using assms(1) by (simp add: complete_delivery_def)
qed

lemma complete_delivery_missing:
  assumes "oid s = Inr x" and "find_one (by_id x) (db_delivery w) = None"
  shows "complete_delivery s now w = (Inl (HTTPException 404 ''Delivery not found''), w)"
  using assms by (simp add: complete_delivery_def update_one_None)

lemma approve_item_found:
  assumes "oid s = Inr x" and "find_one (by_id x) (db_deliveryitem w) = Some i"
  shows "\<exists>w'. approve_item s payload now w =
           (Inr (Some (serialize (i\<lparr>updated_at := now,
                   body := (body i)\<lparr>DeliveryItem.status := ''APPROVED'',
                                    DeliveryItem.notes := ApprovePayload.notes payload\<rparr>\<rparr>))), w')
          \<and> find_one (by_id x) (db_deliveryitem w') =
              Some (i\<lparr>updated_at := now,
                   body := (body i)\<lparr>DeliveryItem.status := ''APPROVED'',
                                    DeliveryItem.notes := ApprovePayload.notes payload\<rparr>\<rparr>)
          \<and> db_delivery w' = db_delivery w"
proof -
  let ?u = "\<lambda>d::(objectid, DeliveryItem) document.
              d\<lparr>updated_at := now,
                body := (body d)\<lparr>DeliveryItem.status := ''APPROVED'',
                                 DeliveryItem.notes := ApprovePayload.notes payload\<rparr>\<rparr>"
  from update_one_found[OF assms(2), of ?u] obtain c
    where "update_one (by_id x) ?u (db_deliveryitem w) = (1, c)"
      "find_one (by_id x) c = Some (?u i)"
    by auto
  then show ?thesis using assms(1) by (simp add: approve_item_def)
qed

lemma approve_item_missing:
  assumes "oid s = Inr x" and "find_one (by_id x) (db_deliveryitem w) = None"
  shows "approve_item s payload now w = (Inl (HTTPException 404 ''Item not found''), w)"
  using assms by (simp add: approve_item_def update_one_None)

lemma store_item_found:
  assumes "oid s = Inr x" and "find_one (by_id x) (db_deliveryitem w) = Some i"
  shows "\<exists>w'. store_item s payload now w =
           (Inr (Some (serialize (i\<lparr>updated_at := now,
                   body := (body i)\<lparr>DeliveryItem.status := ''STORED'',
                      DeliveryItem.location :=
                        Some \<lparr>Location.rack = StorePayload.rack payload,
                              Location.slot = StorePayload.slot payload,
                              Location.zone = StorePayload.zone payload,
                              Location.level = StorePayload.level payload\<rparr>\<rparr>\<rparr>))), w')
          \<and> find_one (by_id x) (db_deliveryitem w') =
              Some (i\<lparr>updated_at := now,
                   body := (body i)\<lparr>DeliveryItem.status := ''STORED'',
                      DeliveryItem.location :=
                        Some \<lparr>Location.rack = StorePayload.rack payload,
                              Location.slot = StorePayload.slot payload,
                              Location.zone = StorePayload.zone payload,
                              Location.level = StorePayload.level payload\<rparr>\<rparr>\<rparr>)
          \<and> db_delivery w' = db_delivery w"
proof -
  let ?u = "\<lambda>d::(objectid, DeliveryItem) document.
              d\<lparr>updated_at := now,
                body := (body d)\<lparr>DeliveryItem.status := ''STORED'',
                   DeliveryItem.location :=
                     Some \<lparr>Location.rack = StorePayload.rack payload,
                           Location.slot = StorePayload.slot payload,
                           Location.zone = StorePayload.zone payload,
                           Location.level = StorePayload.level payload\<rparr>\<rparr>\<rparr>"
  from update_one_found[OF assms(2), of ?u] obtain c
    where "update_one (by_id x) ?u (db_deliveryitem w) = (1, c)"
      "find_one (by_id x) c = Some (?u i)"
    by auto
  then show ?thesis using assms(1) by (simp add: store_item_def)
qed

lemma store_item_missing:
  assumes "oid s = Inr x" and "find_one (by_id x) (db_deliveryitem w) = None"
  shows "store_item s payload now w = (Inl (HTTPException 404 ''Item not found''), w)"
  using assms by (simp add: store_item_def update_one_None)

section \<open>The status commands\<close>

text \<open>
  C4. Let the identifier parse. If it names a stored delivery, \<open>send_to_quality\<close> and
  \<open>complete_delivery\<close> succeed and the delivery is the old one with status
  \<open>IN_QUALITY_CHECK\<close>, respectively \<open>COMPLETED\<close>, and a new \<open>updated_at\<close>, whatever
  its status was. If it names a stored item, \<open>approve_item\<close> and \<open>store_item\<close> succeed
  and the item is the old one with status \<open>APPROVED\<close> (and the notes of the request),
  respectively \<open>STORED\<close> with the location of the request, whatever its status was.
  If no document has the identifier, each command answers 404 and leaves the store as it
  was.
\<close>

theorem status_commands_unconditional:
  assumes "oid s = Inr x"
  shows
    "(\<forall>d. find_one (by_id x) (db_delivery w) = Some d \<longrightarrow>
        (\<exists>w'. send_to_quality s now w =
                 (Inr (Some (serialize (d\<lparr>updated_at := now,
                    body := (body d)\<lparr>Delivery.status := ''IN_QUALITY_CHECK''\<rparr>\<rparr>))), w')
             \<and> find_one (by_id x) (db_delivery w') =
                 Some (d\<lparr>updated_at := now,
                    body := (body d)\<lparr>Delivery.status := ''IN_QUALITY_CHECK''\<rparr>\<rparr>))
      \<and> (\<exists>w'. complete_delivery s now w =
                 (Inr (Some (serialize (d\<lparr>updated_at := now,
                    body := (body d)\<lparr>Delivery.status := ''COMPLETED''\<rparr>\<rparr>))), w')
             \<and> find_one (by_id x) (db_delivery w') =
                 Some (d\<lparr>updated_at := now,
                    body := (body d)\<lparr>Delivery.status := ''COMPLETED''\<rparr>\<rparr>)))
   \<and> (find_one (by_id x) (db_delivery w) = None \<longrightarrow>
        send_to_quality s now w = (Inl (HTTPException 404 ''Delivery not found''), w)
      \<and> complete_delivery s now w = (Inl (HTTPException 404 ''Delivery not found''), w))
   \<and> (\<forall>i. find_one (by_id x) (db_deliveryitem w) = Some i \<longrightarrow>
        (\<exists>w'. approve_item s ap now w =
                 (Inr (Some (serialize (i\<lparr>updated_at := now,
                    body := (body i)\<lparr>DeliveryItem.status := ''APPROVED'',
                                     DeliveryItem.notes := ApprovePayload.notes ap\<rparr>\<rparr>))), w')
             \<and> find_one (by_id x) (db_deliveryitem w') =
                 Some (i\<lparr>updated_at := now,
                    body := (body i)\<lparr>DeliveryItem.status := ''APPROVED'',
                                     DeliveryItem.notes := ApprovePayload.notes ap\<rparr>\<rparr>))
      \<and> (\<exists>w'. store_item s sp now w =
                 (Inr (Some (serialize (i\<lparr>updated_at := now,
                    body := (body i)\<lparr>DeliveryItem.status := ''STORED'',
                       DeliveryItem.location :=
                         Some \<lparr>Location.rack = StorePayload.rack sp,
                               Location.slot = StorePayload.slot sp,
                               Location.zone = StorePayload.zone sp,
                               Location.level = StorePayload.level sp\<rparr>\<rparr>\<rparr>))), w')
             \<and> find_one (by_id x) (db_deliveryitem w') =
                 Some (i\<lparr>updated_at := now,
                    body := (body i)\<lparr>DeliveryItem.status := ''STORED'',
                       DeliveryItem.location :=
                         Some \<lparr>Location.rack = StorePayload.rack sp,
                               Location.slot = StorePayload.slot sp,
                               Location.zone = StorePayload.zone sp,
                               Location.level = StorePayload.level sp\<rparr>\<rparr>\<rparr>)))
   \<and> (find_one (by_id x) (db_deliveryitem w) = None \<longrightarrow>
        approve_item s ap now w = (Inl (HTTPException 404 ''Item not found''), w)
      \<and> store_item s sp now w = (Inl (HTTPException 404 ''Item not found''), w))"
proof (intro conjI allI impI)
  fix d assume "find_one (by_id x) (db_delivery w) = Some d"
  from send_to_quality_found[OF assms this]
  show "\<exists>w'. send_to_quality s now w =
                 (Inr (Some (serialize (d\<lparr>updated_at := now,
                    body := (body d)\<lparr>Delivery.status := ''IN_QUALITY_CHECK''\<rparr>\<rparr>))), w')
             \<and> find_one (by_id x) (db_delivery w') =
                 Some (d\<lparr>updated_at := now,
                    body := (body d)\<lparr>Delivery.status := ''IN_QUALITY_CHECK''\<rparr>\<rparr>)"
    by blast
qed (use assms in \<open>blast dest: complete_delivery_found send_to_quality_missing complete_delivery_missing approve_item_found approve_item_missing store_item_found store_item_missing\<close>)+

theorem status_commands_unconditional_witness:
  "oid ''aaaaaaaaaaaaaaaaaaaaaaaa'' = Inr (ObjectId ''aaaaaaaaaaaaaaaaaaaaaaaa'')
   \<and> find_one (by_id (ObjectId ''aaaaaaaaaaaaaaaaaaaaaaaa'')) (db_delivery example_world)
       = Some example_delivery
   \<and> Delivery.status (body example_delivery) = ''COMPLETED''
   \<and> (\<exists>w'. send_to_quality ''aaaaaaaaaaaaaaaaaaaaaaaa'' 7 example_world =
          (Inr (Some (serialize (example_delivery\<lparr>updated_at := 7,
             body := (body example_delivery)\<lparr>Delivery.status := ''IN_QUALITY_CHECK''\<rparr>\<rparr>))), w'))
   \<and> find_one (by_id (ObjectId ''aaaaaaaaaaaaaaaaaaaaaaaa'')) (db_deliveryitem example_world) = None
   \<and> approve_item ''aaaaaaaaaaaaaaaaaaaaaaaa'' \<lparr>ApprovePayload.notes = None\<rparr> 7 example_world
       = (Inl (HTTPException 404 ''Item not found''), example_world)
   \<and> oid ''bbbbbbbbbbbbbbbbbbbbbbbb'' = Inr (ObjectId ''bbbbbbbbbbbbbbbbbbbbbbbb'')
   \<and> find_one (by_id (ObjectId ''bbbbbbbbbbbbbbbbbbbbbbbb'')) (db_deliveryitem example_world)
       = Some example_item
   \<and> DeliveryItem.status (body example_item) = ''STORED''
   \<and> (\<exists>w'. approve_item ''bbbbbbbbbbbbbbbbbbbbbbbb'' \<lparr>ApprovePayload.notes = None\<rparr> 7 example_world =
          (Inr (Some (serialize (example_item\<lparr>updated_at := 7,
             body := (body example_item)\<lparr>DeliveryItem.status := ''APPROVED'',
                                          DeliveryItem.notes := None\<rparr>\<rparr>))), w'))
   \<and> find_one (by_id (ObjectId ''bbbbbbbbbbbbbbbbbbbbbbbb'')) (db_delivery example_world) = None
   \<and> complete_delivery ''bbbbbbbbbbbbbbbbbbbbbbbb'' 7 example_world
       = (Inl (HTTPException 404 ''Delivery not found''), example_world)"
proof -
  have a: "oid ''aaaaaaaaaaaaaaaaaaaaaaaa'' = Inr (ObjectId ''aaaaaaaaaaaaaaaaaaaaaaaa'')"
    by (simp add: oid_def ObjectId_parse_def hexdigits_def hex_lower_def whitespace_def)
  have b: "oid ''bbbbbbbbbbbbbbbbbbbbbbbb'' = Inr (ObjectId ''bbbbbbbbbbbbbbbbbbbbbbbb'')"
    by (simp add: oid_def ObjectId_parse_def hexdigits_def hex_lower_def whitespace_def)
  have da: "find_one (by_id (ObjectId ''aaaaaaaaaaaaaaaaaaaaaaaa'')) (db_delivery example_world)
              = Some example_delivery"
    by (simp add: example_defs by_id_def)
  have ia: "find_one (by_id (ObjectId ''aaaaaaaaaaaaaaaaaaaaaaaa'')) (db_deliveryitem example_world)
              = None"
    by (simp add: example_defs by_id_def)
  have db: "find_one (by_id (ObjectId ''bbbbbbbbbbbbbbbbbbbbbbbb'')) (db_delivery example_world)
              = None"
    by (simp add: example_defs by_id_def)
  have ib: "find_one (by_id (ObjectId ''bbbbbbbbbbbbbbbbbbbbbbbb'')) (db_deliveryitem example_world)
              = Some example_item"
    by (simp add: example_defs by_id_def)
  have st: "Delivery.status (body example_delivery) = ''COMPLETED''"
    "DeliveryItem.status (body example_item) = ''STORED''"
    by (simp_all add: example_defs)
  note A = status_commands_unconditional
             [OF a, of example_world 7 "\<lparr>ApprovePayload.notes = None\<rparr>"
                "\<lparr>StorePayload.rack = ''A1'', slot = ''3'', zone = None, level = None\<rparr>"]
  note B = status_commands_unconditional
             [OF b, of example_world 7 "\<lparr>ApprovePayload.notes = None\<rparr>"
                "\<lparr>StorePayload.rack = ''A1'', slot = ''3'', zone = None, level = None\<rparr>"]
  from A da ia have
    "\<exists>w'. send_to_quality ''aaaaaaaaaaaaaaaaaaaaaaaa'' 7 example_world =
          (Inr (Some (serialize (example_delivery\<lparr>updated_at := 7,
             body := (body example_delivery)\<lparr>Delivery.status := ''IN_QUALITY_CHECK''\<rparr>\<rparr>))), w')"
    "approve_item ''aaaaaaaaaaaaaaaaaaaaaaaa'' \<lparr>ApprovePayload.notes = None\<rparr> 7 example_world
       = (Inl (HTTPException 404 ''Item not found''), example_world)"
    by blast+
  moreover from B db ib have
    "\<exists>w'. approve_item ''bbbbbbbbbbbbbbbbbbbbbbbb'' \<lparr>ApprovePayload.notes = None\<rparr> 7 example_world =
          (Inr (Some (serialize (example_item\<lparr>updated_at := 7,
             body := (body example_item)\<lparr>DeliveryItem.status := ''APPROVED'',
                                          DeliveryItem.notes := None\<rparr>\<rparr>))), w')"
    "complete_delivery ''bbbbbbbbbbbbbbbbbbbbbbbb'' 7 example_world
       = (Inl (HTTPException 404 ''Delivery not found''), example_world)"
    by auto
  ultimately show ?thesis using a b da ia db ib st by blast
qed

text \<open>
  C10. \<open>approve_item\<close> writes the notes of the request over the notes of the item: the
  stored and the returned item carry exactly \<open>payload.notes\<close>, so a request without notes
  replaces the item's notes by \<open>None\<close>.
\<close>

theorem approve_item_overwrites_notes:
  assumes "oid item_id = Inr x"
    and "find_one (by_id x) (db_deliveryitem w) = Some i"
  shows "\<exists>i' w'. approve_item item_id payload now w = (Inr (Some (serialize i')), w')
           \<and> find_one (by_id x) (db_deliveryitem w') = Some i'
           \<and> DeliveryItem.notes (body i') = ApprovePayload.notes payload
           \<and> (ApprovePayload.notes payload = None \<longrightarrow> DeliveryItem.notes (body i') = None)"
proof -
  from approve_item_found[OF assms, of payload now] obtain w' where
    "approve_item item_id payload now w =
       (Inr (Some (serialize (i\<lparr>updated_at := now,
          body := (body i)\<lparr>DeliveryItem.status := ''APPROVED'',
                           DeliveryItem.notes := ApprovePayload.notes payload\<rparr>\<rparr>))), w')"
    "find_one (by_id x) (db_deliveryitem w') =
       Some (i\<lparr>updated_at := now,
          body := (body i)\<lparr>DeliveryItem.status := ''APPROVED'',
                           DeliveryItem.notes := ApprovePayload.notes payload\<rparr>\<rparr>)"
    by blast
  then show ?thesis by simp
qed

theorem approve_item_overwrites_notes_witness:
  "oid ''bbbbbbbbbbbbbbbbbbbbbbbb'' = Inr (ObjectId ''bbbbbbbbbbbbbbbbbbbbbbbb'')
   \<and> find_one (by_id (ObjectId ''bbbbbbbbbbbbbbbbbbbbbbbb'')) (db_deliveryitem example_world)
       = Some example_item
   \<and> DeliveryItem.notes (body example_item) = Some ''fragile''
   \<and> (\<exists>i' w'. approve_item ''bbbbbbbbbbbbbbbbbbbbbbbb'' \<lparr>ApprovePayload.notes = None\<rparr> 7 example_world
                  = (Inr (Some (serialize i')), w')
          \<and> find_one (by_id (ObjectId ''bbbbbbbbbbbbbbbbbbbbbbbb'')) (db_deliveryitem w') = Some i'
          \<and> DeliveryItem.notes (body i') = None)"
proof -
  have b: "oid ''bbbbbbbbbbbbbbbbbbbbbbbb'' = Inr (ObjectId ''bbbbbbbbbbbbbbbbbbbbbbbb'')"
    by (simp add: oid_def ObjectId_parse_def hexdigits_def hex_lower_def whitespace_def)
  have ib: "find_one (by_id (ObjectId ''bbbbbbbbbbbbbbbbbbbbbbbb'')) (db_deliveryitem example_world)
              = Some example_item"
    by (simp add: example_defs by_id_def)
  have n: "DeliveryItem.notes (body example_item) = Some ''fragile''"
    by (simp add: example_defs)
  from approve_item_overwrites_notes[OF b ib, of "\<lparr>ApprovePayload.notes = None\<rparr>" 7]
  show ?thesis using b ib n by simp
qed

section \<open>Listing and creation\<close>

lemma find_one_append:
  "find_one q (xs @ ys) = (case find_one q xs of None \<Rightarrow> find_one q ys | Some d \<Rightarrow> Some d)"
  by (induction xs) auto

lemma matches_status_nin:
  "ops ''$nin'' = Some (Strs xs) \<Longrightarrow> matches_status ops s \<Longrightarrow> s \<notin> set xs"
  by (simp add: matches_status_def)

lemma list_deliveries_result:
  assumes "list_deliveries status_in limit_q w = Inr docs"
  shows "\<exists>filt ops n. docs = map serialize (take n (sort_key (\<lambda>d. - created_at d)
                                (filter (matches filt) (db_delivery w))))
           \<and> filt ''status'' = Some ops \<and> ops ''$nin'' = Some (Strs [''RECEIVED''])"
  using assms
  by (auto simp: list_deliveries_def Let_def split: if_splits option.splits list.splits)

text \<open>
  C5. Whatever the status filter and the limit, a list of deliveries that
  \<open>list_deliveries\<close> returns holds no document with status \<open>RECEIVED\<close>, and no stored
  delivery with that status appears in it: the query always carries
  \<open>$nin: ["RECEIVED"]\<close>.
\<close>

theorem list_deliveries_excludes_legacy:
  assumes "list_deliveries status_in limit_q w = Inr docs"
  shows "(\<forall>d\<in>set docs. Delivery.status (body d) \<noteq> ''RECEIVED'')
       \<and> (\<forall>s\<in>set (db_delivery w).
             Delivery.status (body s) = ''RECEIVED'' \<longrightarrow> serialize s \<notin> set docs)"
proof -
  from list_deliveries_result[OF assms] obtain filt ops n where
    docs: "docs = map serialize (take n (sort_key (\<lambda>d. - created_at d)
                                (filter (matches filt) (db_delivery w))))"
    and filt: "filt ''status'' = Some ops" and nin: "ops ''$nin'' = Some (Strs [''RECEIVED''])"
    by blast
  have a: "\<forall>d\<in>set docs. Delivery.status (body d) \<noteq> ''RECEIVED''"
  proof
    fix d assume "d \<in> set docs"
    with docs obtain s where s: "d = serialize s"
      "s \<in> set (take n (sort_key (\<lambda>d. - created_at d) (filter (matches filt) (db_delivery w))))"
      by auto
    from s(2) have "s \<in> set (sort_key (\<lambda>d. - created_at d) (filter (matches filt) (db_delivery w)))"
      by (rule in_set_takeD)
    then have "matches filt s" by simp
    with filt have "matches_status ops (Delivery.status (body s))"
      by (simp add: matches_def)
    from matches_status_nin[OF nin this] have "Delivery.status (body s) \<noteq> ''RECEIVED''" by simp
    with s(1) show "Delivery.status (body d) \<noteq> ''RECEIVED''" by (simp add: serialize_def)
  qed
  have "\<forall>s\<in>set (db_delivery w).
             Delivery.status (body s) = ''RECEIVED'' \<longrightarrow> serialize s \<notin> set docs"
  proof (intro ballI impI notI)
    fix s assume "Delivery.status (body s) = ''RECEIVED''" "serialize s \<in> set docs"
    with a show False by (auto simp: serialize_def)
  qed
  with a show ?thesis by blast
qed

theorem list_deliveries_excludes_legacy_witness:
  "list_deliveries None None example_world = Inr [serialize example_delivery]
   \<and> example_legacy \<in> set (db_delivery example_world)
   \<and> Delivery.status (body example_legacy) = ''RECEIVED''
   \<and> Delivery.status (body (serialize example_delivery)) \<noteq> ''RECEIVED''
   \<and> serialize example_legacy \<notin> set [serialize example_delivery]"
proof -
  have h: "list_deliveries None None example_world = Inr [serialize example_delivery]"
    by (simp add: list_deliveries_def example_defs matches_def matches_status_def)
  have m: "example_legacy \<in> set (db_delivery example_world)"
    "Delivery.status (body example_legacy) = ''RECEIVED''"
    by (simp_all add: example_defs)
  from list_deliveries_excludes_legacy[OF h] m h show ?thesis by simp
qed

text \<open>
  C6. Let the identifier handed out by the driver be well formed. \<open>create_delivery\<close> with
  an unused identifier succeeds for every request body, whatever further fields the
  client sent along, and the delivery it stores and returns has status \<open>PENDING\<close> and
  \<open>receivedQty\<close> 0. \<open>add_delivery_item\<close> on an existing delivery, with a non-negative
  \<open>expectedQty\<close> as the schema demands and an unused identifier, succeeds likewise, and
  the item has status \<open>PENDING\<close> and \<open>receivedQty\<close> 0.
\<close>

theorem creation_defaults:
  assumes "ObjectId_parse (str fresh) = Some fresh"
  shows
    "(fresh \<notin> ident ` set (db_delivery w) \<longrightarrow>
        (\<exists>d. create_delivery payload now fresh w =
                (Inr (Some (serialize d)), w\<lparr>db_delivery := db_delivery w @ [d]\<rparr>)
            \<and> ident d = fresh
            \<and> Delivery.status (body d) = ''PENDING''
            \<and> Delivery.receivedQty (body d) = 0))
   \<and> (oid delivery_id' = Inr x \<and> find_one (by_id x) (db_delivery w) \<noteq> None
        \<and> 0 \<le> DeliveryItemCreateRequest.expectedQty ipayload
        \<and> fresh \<notin> ident ` set (db_deliveryitem w) \<longrightarrow>
        (\<exists>i. add_delivery_item delivery_id' ipayload now fresh w =
                (Inr (Some (serialize i)), w\<lparr>db_deliveryitem := db_deliveryitem w @ [i]\<rparr>)
            \<and> ident i = fresh
            \<and> DeliveryItem.delivery_id (body i) = delivery_id'
            \<and> DeliveryItem.status (body i) = ''PENDING''
            \<and> DeliveryItem.receivedQty (body i) = 0))"
proof (intro conjI impI)
  assume fr: "fresh \<notin> ident ` set (db_delivery w)"
  then have "find_one (by_id fresh) (db_delivery w) = None"
    by (auto simp: find_None_iff by_id_def)
  then show "\<exists>d. create_delivery payload now fresh w =
                (Inr (Some (serialize d)), w\<lparr>db_delivery := db_delivery w @ [d]\<rparr>)
            \<and> ident d = fresh
            \<and> Delivery.status (body d) = ''PENDING''
            \<and> Delivery.receivedQty (body d) = 0"
    using fr assms
    by (auto simp: create_delivery_def new_Delivery_def DeliveryStatus_def create_document_def
        find_one_append by_id_def)
next
  assume h: "oid delivery_id' = Inr x \<and> find_one (by_id x) (db_delivery w) \<noteq> None
        \<and> 0 \<le> DeliveryItemCreateRequest.expectedQty ipayload
        \<and> fresh \<notin> ident ` set (db_deliveryitem w)"
  then have "find_one (by_id fresh) (db_deliveryitem w) = None"
    by (auto simp: find_None_iff by_id_def)
  then show "\<exists>i. add_delivery_item delivery_id' ipayload now fresh w =
                (Inr (Some (serialize i)), w\<lparr>db_deliveryitem := db_deliveryitem w @ [i]\<rparr>)
            \<and> ident i = fresh
            \<and> DeliveryItem.delivery_id (body i) = delivery_id'
            \<and> DeliveryItem.status (body i) = ''PENDING''
            \<and> DeliveryItem.receivedQty (body i) = 0"
    using h assms
    by (auto simp: add_delivery_item_def new_DeliveryItem_def DeliveryItemStatus_def
        create_document_def find_one_append by_id_def)
qed

theorem creation_defaults_witness:
  "ObjectId_parse (str (ObjectId ''cccccccccccccccccccccccc''))
     = Some (ObjectId ''cccccccccccccccccccccccc'')
   \<and> ObjectId ''cccccccccccccccccccccccc'' \<notin> ident ` set (db_delivery example_world)
   \<and> (\<exists>d. create_delivery
              \<lparr>DeliveryCreateRequest.supplier = Some ''Acme'',
               DeliveryCreateRequest.reference = None,
               DeliveryCreateRequest.expectedDate = None,
               DeliveryCreateRequest.meta = [],
               \<dots> = [(''status'', ''COMPLETED''), (''receivedQty'', ''99'')]\<rparr>
              9 (ObjectId ''cccccccccccccccccccccccc'') example_world
            = (Inr (Some (serialize d)),
               example_world\<lparr>db_delivery := db_delivery example_world @ [d]\<rparr>)
          \<and> Delivery.status (body d) = ''PENDING''
          \<and> Delivery.receivedQty (body d) = 0)
   \<and> oid ''aaaaaaaaaaaaaaaaaaaaaaaa'' = Inr (ObjectId ''aaaaaaaaaaaaaaaaaaaaaaaa'')
   \<and> find_one (by_id (ObjectId ''aaaaaaaaaaaaaaaaaaaaaaaa'')) (db_delivery example_world) \<noteq> None
   \<and> ObjectId ''cccccccccccccccccccccccc'' \<notin> ident ` set (db_deliveryitem example_world)
   \<and> (\<exists>i. add_delivery_item ''aaaaaaaaaaaaaaaaaaaaaaaa''
              \<lparr>DeliveryItemCreateRequest.product_id = None,
               DeliveryItemCreateRequest.variant_id = None,
               DeliveryItemCreateRequest.expectedQty = 10,
               DeliveryItemCreateRequest.notes = None,
               \<dots> = [(''status'', ''STORED''), (''receivedQty'', ''7'')]\<rparr>
              9 (ObjectId ''cccccccccccccccccccccccc'') example_world
            = (Inr (Some (serialize i)),
               example_world\<lparr>db_deliveryitem := db_deliveryitem example_world @ [i]\<rparr>)
          \<and> DeliveryItem.status (body i) = ''PENDING''
          \<and> DeliveryItem.receivedQty (body i) = 0)"
proof -
  have p: "ObjectId_parse (str (ObjectId ''cccccccccccccccccccccccc''))
             = Some (ObjectId ''cccccccccccccccccccccccc'')"
    by (simp add: str_def ObjectId_parse_def hexdigits_def hex_lower_def whitespace_def)
  have f1: "ObjectId ''cccccccccccccccccccccccc'' \<notin> ident ` set (db_delivery example_world)"
    by (simp add: example_defs)
  have f2: "ObjectId ''cccccccccccccccccccccccc'' \<notin> ident ` set (db_deliveryitem example_world)"
    by (simp add: example_defs)
  have a: "oid ''aaaaaaaaaaaaaaaaaaaaaaaa'' = Inr (ObjectId ''aaaaaaaaaaaaaaaaaaaaaaaa'')"
    by (simp add: oid_def ObjectId_parse_def hexdigits_def hex_lower_def whitespace_def)
  have da: "find_one (by_id (ObjectId ''aaaaaaaaaaaaaaaaaaaaaaaa'')) (db_delivery example_world)
              \<noteq> None"
    by (simp add: example_defs by_id_def)
  note T = creation_defaults
      [OF p, of example_world
         "\<lparr>DeliveryCreateRequest.supplier = Some ''Acme'',
           DeliveryCreateRequest.reference = None,
           DeliveryCreateRequest.expectedDate = None,
           DeliveryCreateRequest.meta = [],
           \<dots> = [(''status'', ''COMPLETED''), (''receivedQty'', ''99'')]\<rparr>"
         9 "''aaaaaaaaaaaaaaaaaaaaaaaa''" "ObjectId ''aaaaaaaaaaaaaaaaaaaaaaaa''"
         "\<lparr>DeliveryItemCreateRequest.product_id = None,
           DeliveryItemCreateRequest.variant_id = None,
           DeliveryItemCreateRequest.expectedQty = 10,
           DeliveryItemCreateRequest.notes = None,
           \<dots> = [(''status'', ''STORED''), (''receivedQty'', ''7'')]\<rparr>"]
  from T f1 have
    "\<exists>d. create_delivery
              \<lparr>DeliveryCreateRequest.supplier = Some ''Acme'',
               DeliveryCreateRequest.reference = None,
               DeliveryCreateRequest.expectedDate = None,
               DeliveryCreateRequest.meta = [],
               \<dots> = [(''status'', ''COMPLETED''), (''receivedQty'', ''99'')]\<rparr>
              9 (ObjectId ''cccccccccccccccccccccccc'') example_world
            = (Inr (Some (serialize d)),
               example_world\<lparr>db_delivery := db_delivery example_world @ [d]\<rparr>)
          \<and> Delivery.status (body d) = ''PENDING''
          \<and> Delivery.receivedQty (body d) = 0"
    by blast
  moreover from T a da f2 have
    "\<exists>i. add_delivery_item ''aaaaaaaaaaaaaaaaaaaaaaaa''
              \<lparr>DeliveryItemCreateRequest.product_id = None,
               DeliveryItemCreateRequest.variant_id = None,
               DeliveryItemCreateRequest.expectedQty = 10,
               DeliveryItemCreateRequest.notes = None,
               \<dots> = [(''status'', ''STORED''), (''receivedQty'', ''7'')]\<rparr>
              9 (ObjectId ''cccccccccccccccccccccccc'') example_world
            = (Inr (Some (serialize i)),
               example_world\<lparr>db_deliveryitem := db_deliveryitem example_world @ [i]\<rparr>)
          \<and> DeliveryItem.status (body i) = ''PENDING''
          \<and> DeliveryItem.receivedQty (body i) = 0"
    by auto
  ultimately show ?thesis using p f1 f2 a da by blast
qed

section \<open>Receiving\<close>

lemma receive_entry_invalid:
  "oid (itemId it) = Inl e \<Longrightarrow> receive_entry delivery_id' now it w = (Inl e, w)"
  by (simp add: receive_entry_def)

lemma receive_entry_missing:
  "oid (itemId it) = Inr y \<Longrightarrow>
   find_one (\<lambda>d. ident d = y \<and> DeliveryItem.delivery_id (body d) = delivery_id')
     (db_deliveryitem w) = None \<Longrightarrow>
   receive_entry delivery_id' now it w =
     (Inl (HTTPException 400 (''Item '' @ itemId it @ '' not found for this delivery'')), w)"
  by (simp add: receive_entry_def)

lemma receive_entry_negative:
  "oid (itemId it) = Inr y \<Longrightarrow>
   find_one (\<lambda>d. ident d = y \<and> DeliveryItem.delivery_id (body d) = delivery_id')
     (db_deliveryitem w) = Some item \<Longrightarrow> qty it < 0 \<Longrightarrow>
   receive_entry delivery_id' now it w = (Inl (HTTPException 400 ''qty must be >= 0''), w)"
  by (simp add: receive_entry_def)

lemma receive_entry_overflow:
  "oid (itemId it) = Inr y \<Longrightarrow>
   find_one (\<lambda>d. ident d = y \<and> DeliveryItem.delivery_id (body d) = delivery_id')
     (db_deliveryitem w) = Some item \<Longrightarrow> 0 \<le> qty it \<Longrightarrow>
   \<not> int64 (DeliveryItem.receivedQty (body item) + qty it) \<Longrightarrow>
   receive_entry delivery_id' now it w = (Inl OverflowError, w)"
  by (simp add: receive_entry_def Let_def)

lemma receive_entry_applied:
  "oid (itemId it) = Inr y \<Longrightarrow>
   find_one (\<lambda>d. ident d = y \<and> DeliveryItem.delivery_id (body d) = delivery_id')
     (db_deliveryitem w) = Some item \<Longrightarrow> 0 \<le> qty it \<Longrightarrow>
   int64 (DeliveryItem.receivedQty (body item) + qty it) \<Longrightarrow>
   receive_entry delivery_id' now it w =
     (Inr (),
      w\<lparr>db_deliveryitem :=
          snd (update_one (by_id (ident item))
                 (\<lambda>d. d\<lparr>updated_at := now,
                         body := (body d)\<lparr>DeliveryItem.receivedQty :=
                                            DeliveryItem.receivedQty (body item) + qty it,
                                          DeliveryItem.status :=
                                            (if qty it > 0 then ''RECEIVED''
                                             else DeliveryItem.status (body item))\<rparr>\<rparr>)
                 (db_deliveryitem w))\<rparr>)"
  by (simp add: receive_entry_def Let_def)

lemma receive_entry_failed:
  "receive_entry delivery_id' now it w = (Inl e, w') \<Longrightarrow> w' = w"
  by (auto simp: receive_entry_def Let_def split: sum.splits option.splits if_splits)

lemma receive_entry_db_delivery:
  "receive_entry delivery_id' now it w = (r, w') \<Longrightarrow> db_delivery w' = db_delivery w"
  by (auto simp: receive_entry_def Let_def split: sum.splits option.splits if_splits)

lemma receive_entry_keys:
  "receive_entry delivery_id' now it w = (r, w') \<Longrightarrow>
   map (\<lambda>i. (ident i, DeliveryItem.delivery_id (body i))) (db_deliveryitem w')
     = map (\<lambda>i. (ident i, DeliveryItem.delivery_id (body i))) (db_deliveryitem w)"
  by (auto simp: receive_entry_def Let_def map_update_one
           split: sum.splits option.splits if_splits)

lemma receive_loop_db_delivery:
  "receive_loop delivery_id' clock k its tot w = (r, w') \<Longrightarrow> db_delivery w' = db_delivery w"
proof (induction its arbitrary: k tot w)
  case Nil
  then show ?case by simp
next
  case (Cons it its)
  obtain r1 w1 where e: "receive_entry delivery_id' (clock k) it w = (r1, w1)"
    by (cases "receive_entry delivery_id' (clock k) it w")
  from receive_entry_db_delivery[OF e] have d: "db_delivery w1 = db_delivery w" .
  show ?case
  proof (cases r1)
    case (Inl err)
    with Cons.prems e d show ?thesis by simp
  next
    case (Inr u)
    with Cons.prems e have "receive_loop delivery_id' clock (Suc k) its (tot + qty it) w1 = (r, w')"
      by simp
    from Cons.IH[OF this] d show ?thesis by simp
  qed
qed

lemma receive_loop_keys:
  "receive_loop delivery_id' clock k its tot w = (r, w') \<Longrightarrow>
   map (\<lambda>i. (ident i, DeliveryItem.delivery_id (body i))) (db_deliveryitem w')
     = map (\<lambda>i. (ident i, DeliveryItem.delivery_id (body i))) (db_deliveryitem w)"
proof (induction its arbitrary: k tot w)
  case Nil
  then show ?case by simp
next
  case (Cons it its)
  obtain r1 w1 where e: "receive_entry delivery_id' (clock k) it w = (r1, w1)"
    by (cases "receive_entry delivery_id' (clock k) it w")
  note d = receive_entry_keys[OF e]
  show ?case
  proof (cases r1)
    case (Inl err)
    with Cons.prems e d show ?thesis by simp
  next
    case (Inr u)
    with Cons.prems e have "receive_loop delivery_id' clock (Suc k) its (tot + qty it) w1 = (r, w')"
      by simp
    from Cons.IH[OF this] d show ?thesis by simp
  qed
qed

lemma receive_loop_append:
  "receive_loop delivery_id' clock k (xs @ ys) tot w =
     (case receive_loop delivery_id' clock k xs tot w of
        (Inl e, w') \<Rightarrow> (Inl e, w')
      | (Inr t, w') \<Rightarrow> receive_loop delivery_id' clock (k + length xs) ys t w')"
  by (induction xs arbitrary: k tot w) (auto split: prod.splits sum.splits)

lemma receive_loop_failed:
  "receive_loop delivery_id' clock k its tot w = (Inl e, w') \<Longrightarrow>
   \<exists>n<length its. \<exists>t.
      receive_loop delivery_id' clock k (take n its) tot w = (Inr t, w')
      \<and> receive_entry delivery_id' (clock (k + n)) (its ! n) w' = (Inl e, w')"
proof (induction its arbitrary: k tot w)
  case Nil
  then show ?case by simp
next
  case (Cons it its)
  obtain r1 w1 where e: "receive_entry delivery_id' (clock k) it w = (r1, w1)"
    by (cases "receive_entry delivery_id' (clock k) it w")
  show ?case
  proof (cases r1)
    case (Inl err)
    with Cons.prems e have "err = e" "w1 = w'" by simp_all
    moreover from e Inl receive_entry_failed have "w1 = w" by blast
    ultimately have "receive_loop delivery_id' clock k (take 0 (it # its)) tot w = (Inr tot, w')
      \<and> receive_entry delivery_id' (clock (k + 0)) ((it # its) ! 0) w' = (Inl e, w')"
      using e Inl by simp
    then show ?thesis by blast
  next
    case (Inr u)
    with Cons.prems e have "receive_loop delivery_id' clock (Suc k) its (tot + qty it) w1 = (Inl e, w')"
      by simp
    from Cons.IH[OF this] obtain n t where n: "n < length its"
      "receive_loop delivery_id' clock (Suc k) (take n its) (tot + qty it) w1 = (Inr t, w')"
      "receive_entry delivery_id' (clock (Suc k + n)) (its ! n) w' = (Inl e, w')"
      by blast
    then have "Suc n < length (it # its)
      \<and> receive_loop delivery_id' clock k (take (Suc n) (it # its)) tot w = (Inr t, w')
      \<and> receive_entry delivery_id' (clock (k + Suc n)) ((it # its) ! Suc n) w' = (Inl e, w')"
      using e Inr by simp
    then show ?thesis by blast
  qed
qed

lemma receive_items_succeeded:
  assumes "receive_items delivery_id' payload clock w = (Inr r, w')"
  shows "\<exists>x d t w1. oid delivery_id' = Inr x
           \<and> find_one (by_id x) (db_delivery w) = Some d
           \<and> receive_loop delivery_id' clock 0 payload 0 w = (Inr t, w1)
           \<and> db_deliveryitem w' = db_deliveryitem w1
           \<and> int64 (sum_list (map (\<lambda>i. DeliveryItem.receivedQty (body i))
                 (filter (\<lambda>i. DeliveryItem.delivery_id (body i) = delivery_id')
                    (db_deliveryitem w1))))
           \<and> db_delivery w' =
               snd (update_one (by_id x)
                      (\<lambda>d. d\<lparr>updated_at := clock (length payload),
                              body := (body d)\<lparr>Delivery.receivedQty :=
                                sum_list (map (\<lambda>i. DeliveryItem.receivedQty (body i))
                                  (filter (\<lambda>i. DeliveryItem.delivery_id (body i) = delivery_id')
                                     (db_deliveryitem w1)))\<rparr>\<rparr>)
                      (db_delivery w))
           \<and> r = map_option serialize (find_one (by_id x) (db_delivery w'))"
proof -
  from assms obtain x where x: "oid delivery_id' = Inr x"
    by (auto simp: receive_items_def split: sum.splits)
  from assms x obtain d where d: "find_one (by_id x) (db_delivery w) = Some d"
    by (auto simp: receive_items_def split: option.splits)
  obtain rl w1 where l: "receive_loop delivery_id' clock 0 payload 0 w = (rl, w1)"
    by (cases "receive_loop delivery_id' clock 0 payload 0 w")
  from assms x d l obtain t where t: "rl = Inr t"
    by (cases rl) (auto simp: receive_items_def)
  from receive_loop_db_delivery[OF l] have dd: "db_delivery w1 = db_delivery w" .
  from assms x d l t dd show ?thesis
    by (auto simp: receive_items_def Let_def fold_aggregate split: if_splits)
qed

lemma oid_example_delivery:
  "oid ''aaaaaaaaaaaaaaaaaaaaaaaa'' = Inr (ObjectId ''aaaaaaaaaaaaaaaaaaaaaaaa'')"
  by (simp add: oid_def ObjectId_parse_def hexdigits_def hex_lower_def whitespace_def)

lemma oid_example_item:
  "oid ''bbbbbbbbbbbbbbbbbbbbbbbb'' = Inr (ObjectId ''bbbbbbbbbbbbbbbbbbbbbbbb'')"
  by (simp add: oid_def ObjectId_parse_def hexdigits_def hex_lower_def whitespace_def)

lemma example_receive:
  "receive_items ''aaaaaaaaaaaaaaaaaaaaaaaa''
     [\<lparr>itemId = ''bbbbbbbbbbbbbbbbbbbbbbbb'', qty = 25\<rparr>] example_clock example_world
   = (Inr (Some (serialize example_delivery_received)), example_world_received)"
  by (simp add: receive_items_def receive_entry_def oid_example_delivery oid_example_item
      by_id_def aggregate_def int64_def example_defs received_defs)

lemma example_receive_failing:
  "receive_items ''aaaaaaaaaaaaaaaaaaaaaaaa''
     [\<lparr>itemId = ''bbbbbbbbbbbbbbbbbbbbbbbb'', qty = 25\<rparr>,
      \<lparr>itemId = ''bbbbbbbbbbbbbbbbbbbbbbbb'', qty = - 1\<rparr>] example_clock example_world
   = (Inl (HTTPException 400 ''qty must be >= 0''), example_world_partial)"
  by (simp add: receive_items_def receive_entry_def oid_example_delivery oid_example_item
      by_id_def aggregate_def int64_def example_defs received_defs)

text \<open>
  When \<open>receive_items\<close> completes, the delivery it returns is the stored one, and its
  \<open>receivedQty\<close> is the sum of \<open>receivedQty\<close> over the items of the store afterwards
  whose \<open>delivery_id\<close> is the identifier as the request spells it (the items \<open>$match\<close>
  selects). The delivery's former value, \<open>total_added\<close> and the request body do not
  enter it.
\<close>

lemma receive_items_total:
  assumes "receive_items delivery_id' payload clock w = (Inr r, w')"
  shows "\<exists>x d. oid delivery_id' = Inr x
           \<and> find_one (by_id x) (db_delivery w') = Some d
           \<and> r = Some (serialize d)
           \<and> Delivery.receivedQty (body d) =
               sum_list (map (\<lambda>i. DeliveryItem.receivedQty (body i))
                 (filter (\<lambda>i. DeliveryItem.delivery_id (body i) = delivery_id')
                    (db_deliveryitem w')))"
proof -
  from receive_items_succeeded[OF assms] obtain x d t w1 where
    x: "oid delivery_id' = Inr x"
    and d: "find_one (by_id x) (db_delivery w) = Some d"
    and l: "receive_loop delivery_id' clock 0 payload 0 w = (Inr t, w1)"
    and it: "db_deliveryitem w' = db_deliveryitem w1"
    and dd: "db_delivery w' =
               snd (update_one (by_id x)
                      (\<lambda>d. d\<lparr>updated_at := clock (length payload),
                              body := (body d)\<lparr>Delivery.receivedQty :=
                                sum_list (map (\<lambda>i. DeliveryItem.receivedQty (body i))
                                  (filter (\<lambda>i. DeliveryItem.delivery_id (body i) = delivery_id')
                                     (db_deliveryitem w1)))\<rparr>\<rparr>)
                      (db_delivery w))"
    and r: "r = map_option serialize (find_one (by_id x) (db_delivery w'))"
    by blast
  let ?u = "\<lambda>d::(objectid, Delivery) document. d\<lparr>updated_at := clock (length payload),
                              body := (body d)\<lparr>Delivery.receivedQty :=
                                sum_list (map (\<lambda>i. DeliveryItem.receivedQty (body i))
                                  (filter (\<lambda>i. DeliveryItem.delivery_id (body i) = delivery_id')
                                     (db_deliveryitem w1)))\<rparr>\<rparr>"
  have "find_one (by_id x) (snd (update_one (by_id x) ?u (db_delivery w)))
          = map_option ?u (find_one (by_id x) (db_delivery w))"
    by (rule find_update_one) (simp add: by_id_def)
  with dd d have f: "find_one (by_id x) (db_delivery w') = Some (?u d)" by simp
  with x r it show ?thesis by simp
qed

text \<open>
  C1. After a completed \<open>receive_items\<close> the \<open>receivedQty\<close> of the delivery is to be the
  sum of \<open>receivedQty\<close> over the items whose \<open>delivery_id\<close> references the delivery. The
  handler does not keep this. It finds the delivery by the parsed identifier (main.py,
  lines 163 and 192), which ignores letter case, and selects the items by the string of
  the request (line 185). In the store below the example delivery holds 25 and its only
  item holds 25, the item's \<open>delivery_id\<close> being the delivery's identifier in lower
  case. A request that spells the same identifier in upper case, with an empty batch,
  finds the delivery, selects no item, completes, and leaves the delivery at 0 while its
  item still holds 25.
\<close>

theorem receive_items_misses_other_spelling:
  "oid ''AAAAAAAAAAAAAAAAAAAAAAAA'' = Inr (ident example_delivery_received)
   \<and> db_delivery example_world_received = [example_delivery_received, example_legacy]
   \<and> Delivery.receivedQty (body example_delivery_received) = 25
   \<and> db_deliveryitem example_world_received = [example_item_received]
   \<and> oid (DeliveryItem.delivery_id (body example_item_received))
       = Inr (ident example_delivery_received)
   \<and> DeliveryItem.receivedQty (body example_item_received) = 25
   \<and> receive_items ''AAAAAAAAAAAAAAAAAAAAAAAA'' [] example_clock example_world_received
       = (Inr (Some (serialize example_delivery_zeroed)),
          example_world_received\<lparr>db_delivery := [example_delivery_zeroed, example_legacy]\<rparr>)
   \<and> Delivery.receivedQty (body example_delivery_zeroed) = 0"
  by (simp add: receive_items_def oid_def ObjectId_parse_def hexdigits_def hex_lower_def
      whitespace_def by_id_def aggregate_def int64_def example_defs received_defs more_defs)

text \<open>
  C8. When \<open>receive_items\<close> completes, every delivery of the store has the identifier and
  the status it had before, in the same order; the delivery of the request is the former
  document with a new \<open>receivedQty\<close> and a new \<open>updated_at\<close> and nothing else changed,
  and that document is what the request returns.
\<close>

theorem receive_items_keeps_delivery_status:
  assumes "receive_items delivery_id' payload clock w = (Inr r, w')"
  shows "map (\<lambda>d. (ident d, Delivery.status (body d))) (db_delivery w')
           = map (\<lambda>d. (ident d, Delivery.status (body d))) (db_delivery w)
       \<and> (\<exists>x d n. oid delivery_id' = Inr x
             \<and> find_one (by_id x) (db_delivery w) = Some d
             \<and> find_one (by_id x) (db_delivery w') =
                 Some (d\<lparr>updated_at := clock (length payload),
                         body := (body d)\<lparr>Delivery.receivedQty := n\<rparr>\<rparr>)
             \<and> r = Some (serialize (d\<lparr>updated_at := clock (length payload),
                                      body := (body d)\<lparr>Delivery.receivedQty := n\<rparr>\<rparr>)))"
proof -
  from receive_items_succeeded[OF assms] obtain x d t w1 where
    x: "oid delivery_id' = Inr x"
    and d: "find_one (by_id x) (db_delivery w) = Some d"
    and l: "receive_loop delivery_id' clock 0 payload 0 w = (Inr t, w1)"
    and dd: "db_delivery w' =
               snd (update_one (by_id x)
                      (\<lambda>d. d\<lparr>updated_at := clock (length payload),
                              body := (body d)\<lparr>Delivery.receivedQty :=
                                sum_list (map (\<lambda>i. DeliveryItem.receivedQty (body i))
                                  (filter (\<lambda>i. DeliveryItem.delivery_id (body i) = delivery_id')
                                     (db_deliveryitem w1)))\<rparr>\<rparr>)
                      (db_delivery w))"
    and r: "r = map_option serialize (find_one (by_id x) (db_delivery w'))"
    by blast
  let ?n = "sum_list (map (\<lambda>i. DeliveryItem.receivedQty (body i))
              (filter (\<lambda>i. DeliveryItem.delivery_id (body i) = delivery_id')
                 (db_deliveryitem w1)))"
  let ?u = "\<lambda>d::(objectid, Delivery) document. d\<lparr>updated_at := clock (length payload),
                              body := (body d)\<lparr>Delivery.receivedQty := ?n\<rparr>\<rparr>"
  have "find_one (by_id x) (snd (update_one (by_id x) ?u (db_delivery w)))
          = map_option ?u (find_one (by_id x) (db_delivery w))"
    by (rule find_update_one) (simp add: by_id_def)
  with dd d have f: "find_one (by_id x) (db_delivery w') = Some (?u d)" by simp
  have m: "map (\<lambda>d. (ident d, Delivery.status (body d)))
             (snd (update_one (by_id x) ?u (db_delivery w)))
           = map (\<lambda>d. (ident d, Delivery.status (body d))) (db_delivery w)"
    by (rule map_update_one) simp
  from x d f r have "\<exists>x d n. oid delivery_id' = Inr x
             \<and> find_one (by_id x) (db_delivery w) = Some d
             \<and> find_one (by_id x) (db_delivery w') =
                 Some (d\<lparr>updated_at := clock (length payload),
                         body := (body d)\<lparr>Delivery.receivedQty := n\<rparr>\<rparr>)
             \<and> r = Some (serialize (d\<lparr>updated_at := clock (length payload),
                                      body := (body d)\<lparr>Delivery.receivedQty := n\<rparr>\<rparr>))"
    by auto
  with m dd show ?thesis by simp
qed

theorem receive_items_keeps_delivery_status_witness:
  "receive_items ''aaaaaaaaaaaaaaaaaaaaaaaa''
     [\<lparr>itemId = ''bbbbbbbbbbbbbbbbbbbbbbbb'', qty = 25\<rparr>] example_clock example_world
     = (Inr (Some (serialize example_delivery_received)), example_world_received)
   \<and> map (\<lambda>d. Delivery.status (body d)) (db_delivery example_world) = [''COMPLETED'', ''RECEIVED'']
   \<and> map (\<lambda>d. (ident d, Delivery.status (body d))) (db_delivery example_world_received)
       = map (\<lambda>d. (ident d, Delivery.status (body d))) (db_delivery example_world)"
proof -
  have "map (\<lambda>d. Delivery.status (body d)) (db_delivery example_world) = [''COMPLETED'', ''RECEIVED'']"
    by (simp add: example_defs)
  with receive_items_keeps_delivery_status[OF example_receive] example_receive
  show ?thesis by blast
qed

lemma belongs_iff_key:
  "(\<exists>i\<in>set xs. ident i = y \<and> DeliveryItem.delivery_id (body i) = s)
     \<longleftrightarrow> (y, s) \<in> set (map (\<lambda>i. (ident i, DeliveryItem.delivery_id (body i))) xs)"
  by force

lemma receive_loop_belongs:
  assumes "receive_loop delivery_id' clock k its tot w = (r, w')"
  shows "(\<exists>i\<in>set (db_deliveryitem w'). ident i = y \<and> DeliveryItem.delivery_id (body i) = s)
     \<longleftrightarrow> (\<exists>i\<in>set (db_deliveryitem w). ident i = y \<and> DeliveryItem.delivery_id (body i) = s)"
  unfolding belongs_iff_key receive_loop_keys[OF assms] ..

lemma example_loop:
  "receive_loop ''aaaaaaaaaaaaaaaaaaaaaaaa'' example_clock 0
     [\<lparr>itemId = ''bbbbbbbbbbbbbbbbbbbbbbbb'', qty = 25\<rparr>] 0 example_world
   = (Inr 25, example_world_partial)"
  by (simp add: receive_entry_def oid_example_item by_id_def int64_def example_defs received_defs)

text \<open>
  C9. When \<open>receive_items\<close> fails, the delivery collection is exactly what it was before
  the request, and the store is the one the loop had reached after the entries that
  preceded the failing one: their item updates stay, the re-aggregation is not run. So a
  failed request can leave a delivery whose \<open>receivedQty\<close> differs from the sum over its
  items: there is a store and a request where this happens.
\<close>

theorem failed_receive_skips_reaggregation:
  "(receive_items delivery_id' payload clock w = (Inl e, w') \<longrightarrow>
      db_delivery w' = db_delivery w
      \<and> (\<exists>n\<le>length payload. \<exists>t.
            receive_loop delivery_id' clock 0 (take n payload) 0 w = (Inr t, w')))
   \<and> (\<exists>did its clk v err v' x d.
        receive_items did its clk v = (Inl err, v')
        \<and> oid did = Inr x
        \<and> find_one (by_id x) (db_delivery v') = Some d
        \<and> Delivery.receivedQty (body d) \<noteq>
            sum_list (map (\<lambda>i. DeliveryItem.receivedQty (body i))
              (filter (\<lambda>i. DeliveryItem.delivery_id (body i) = did) (db_deliveryitem v'))))"
proof (intro conjI impI)
  assume f: "receive_items delivery_id' payload clock w = (Inl e, w')"
  obtain rl w1 where l: "receive_loop delivery_id' clock 0 payload 0 w = (rl, w1)"
    by (cases "receive_loop delivery_id' clock 0 payload 0 w")
  have none: "receive_loop delivery_id' clock 0 (take 0 payload) 0 w = (Inr 0, w)" by simp
  show "db_delivery w' = db_delivery w"
    using f l receive_loop_db_delivery[OF l]
    by (auto simp: receive_items_def Let_def split: sum.splits option.splits if_splits)
  show "\<exists>n\<le>length payload. \<exists>t.
          receive_loop delivery_id' clock 0 (take n payload) 0 w = (Inr t, w')"
  proof (cases "\<exists>x d. oid delivery_id' = Inr x \<and> find_one (by_id x) (db_delivery w) = Some d")
    case False
    with f have "w' = w"
      by (auto simp: receive_items_def split: sum.splits option.splits)
    with none show ?thesis by blast
  next
    case True
    with f l have w1: "w1 = w'"
      by (auto simp: receive_items_def Let_def split: sum.splits if_splits)
    show ?thesis
    proof (cases rl)
      case (Inl err)
      with True f l have "err = e"
        by (auto simp: receive_items_def Let_def split: sum.splits if_splits)
      with l Inl w1 have "receive_loop delivery_id' clock 0 payload 0 w = (Inl e, w')" by simp
      from receive_loop_failed[OF this] obtain n t where "n < length payload"
        "receive_loop delivery_id' clock 0 (take n payload) 0 w = (Inr t, w')"
        by blast
      then have "n \<le> length payload
          \<and> receive_loop delivery_id' clock 0 (take n payload) 0 w = (Inr t, w')" by simp
      then show ?thesis by blast
    next
      case (Inr t)
      with l w1 have "length payload \<le> length payload
          \<and> receive_loop delivery_id' clock 0 (take (length payload) payload) 0 w = (Inr t, w')"
        by simp
      then show ?thesis by blast
    qed
  qed
next
  have "find_one (by_id (ObjectId ''aaaaaaaaaaaaaaaaaaaaaaaa'')) (db_delivery example_world_partial)
          = Some example_delivery"
    by (simp add: example_defs received_defs by_id_def)
  moreover have "Delivery.receivedQty (body example_delivery) \<noteq>
            sum_list (map (\<lambda>i. DeliveryItem.receivedQty (body i))
              (filter (\<lambda>i. DeliveryItem.delivery_id (body i) = ''aaaaaaaaaaaaaaaaaaaaaaaa'')
                 (db_deliveryitem example_world_partial)))"
    by (simp add: example_defs received_defs)
  ultimately show "\<exists>did its clk v err v' x d.
        receive_items did its clk v = (Inl err, v')
        \<and> oid did = Inr x
        \<and> find_one (by_id x) (db_delivery v') = Some d
        \<and> Delivery.receivedQty (body d) \<noteq>
            sum_list (map (\<lambda>i. DeliveryItem.receivedQty (body i))
              (filter (\<lambda>i. DeliveryItem.delivery_id (body i) = did) (db_deliveryitem v')))"
    using example_receive_failing oid_example_delivery by blast
qed

theorem failed_receive_skips_reaggregation_witness:
  "receive_items ''aaaaaaaaaaaaaaaaaaaaaaaa''
     [\<lparr>itemId = ''bbbbbbbbbbbbbbbbbbbbbbbb'', qty = 25\<rparr>,
      \<lparr>itemId = ''bbbbbbbbbbbbbbbbbbbbbbbb'', qty = - 1\<rparr>] example_clock example_world
     = (Inl (HTTPException 400 ''qty must be >= 0''), example_world_partial)
   \<and> db_delivery example_world_partial = db_delivery example_world
   \<and> find_one (by_id (ObjectId ''aaaaaaaaaaaaaaaaaaaaaaaa'')) (db_delivery example_world_partial)
       = Some example_delivery
   \<and> Delivery.receivedQty (body example_delivery) = 0
   \<and> sum_list (map (\<lambda>i. DeliveryItem.receivedQty (body i))
        (filter (\<lambda>i. DeliveryItem.delivery_id (body i) = ''aaaaaaaaaaaaaaaaaaaaaaaa'')
           (db_deliveryitem example_world_partial))) = 25"
proof -
  have "find_one (by_id (ObjectId ''aaaaaaaaaaaaaaaaaaaaaaaa'')) (db_delivery example_world_partial)
          = Some example_delivery"
    by (simp add: example_defs received_defs by_id_def)
  moreover have "Delivery.receivedQty (body example_delivery) = 0"
    by (simp add: example_defs)
  moreover have "sum_list (map (\<lambda>i. DeliveryItem.receivedQty (body i))
        (filter (\<lambda>i. DeliveryItem.delivery_id (body i) = ''aaaaaaaaaaaaaaaaaaaaaaaa'')
           (db_deliveryitem example_world_partial))) = 25"
    by (simp add: example_defs received_defs)
  moreover from failed_receive_skips_reaggregation
      [of "''aaaaaaaaaaaaaaaaaaaaaaaa''"
          "[\<lparr>itemId = ''bbbbbbbbbbbbbbbbbbbbbbbb'', qty = 25\<rparr>,
            \<lparr>itemId = ''bbbbbbbbbbbbbbbbbbbbbbbb'', qty = - 1\<rparr>]"
          example_clock example_world "HTTPException 400 ''qty must be >= 0''"
          example_world_partial]
    example_receive_failing
  have "db_delivery example_world_partial = db_delivery example_world" by blast
  ultimately show ?thesis using example_receive_failing by blast
qed

text \<open>
  C3. Let the delivery of the request exist and let the entries \<open>pre\<close> have been applied,
  leading to the store \<open>w1\<close>. If the next entry has an identifier that does not parse,
  or names no item with that identifier and the delivery identifier of the request, the
  request fails with status 400 (\<open>Invalid ID\<close>, respectively
  \<open>Item ... not found for this delivery\<close>); if it names such an item and its quantity is
  negative, the request fails with status 400 (\<open>qty must be >= 0\<close>). In each case the
  store afterwards is \<open>w1\<close>: the updates of the earlier entries are kept and the entries
  \<open>post\<close> are not looked at.
\<close>

theorem receive_items_aborts_at_first_bad_entry:
  assumes "oid delivery_id' = Inr x"
    and "find_one (by_id x) (db_delivery w) = Some d"
    and "receive_loop delivery_id' clock 0 pre 0 w = (Inr t, w1)"
  shows
    "(\<forall>e. oid (itemId it) = Inl e \<longrightarrow>
        receive_items delivery_id' (pre @ it # post) clock w
          = (Inl (HTTPException 400 ''Invalid ID''), w1))
   \<and> (\<forall>y. oid (itemId it) = Inr y
           \<and> \<not> (\<exists>i\<in>set (db_deliveryitem w).
                   ident i = y \<and> DeliveryItem.delivery_id (body i) = delivery_id') \<longrightarrow>
        receive_items delivery_id' (pre @ it # post) clock w
          = (Inl (HTTPException 400
                    (''Item '' @ itemId it @ '' not found for this delivery'')), w1))
   \<and> (\<forall>y. oid (itemId it) = Inr y
           \<and> (\<exists>i\<in>set (db_deliveryitem w).
                   ident i = y \<and> DeliveryItem.delivery_id (body i) = delivery_id')
           \<and> qty it < 0 \<longrightarrow>
        receive_items delivery_id' (pre @ it # post) clock w
          = (Inl (HTTPException 400 ''qty must be >= 0''), w1))"
proof -
  have step: "receive_items delivery_id' (pre @ it # post) clock w = (Inl e, w1)"
    if "receive_entry delivery_id' (clock (length pre)) it w1 = (Inl e, w1)" for e
    using assms that by (simp add: receive_items_def receive_loop_append)
  note bel = receive_loop_belongs[OF assms(3)]
  show ?thesis
  proof (intro conjI allI impI)
    fix e assume a: "oid (itemId it) = Inl e"
    then have "e = HTTPException 400 ''Invalid ID''"
      by (auto simp: oid_def split: option.splits)
    with a show "receive_items delivery_id' (pre @ it # post) clock w
          = (Inl (HTTPException 400 ''Invalid ID''), w1)"
      using step receive_entry_invalid by blast
  next
    fix y assume a: "oid (itemId it) = Inr y
           \<and> \<not> (\<exists>i\<in>set (db_deliveryitem w).
                   ident i = y \<and> DeliveryItem.delivery_id (body i) = delivery_id')"
    with bel have "\<not> (\<exists>i\<in>set (db_deliveryitem w1).
                   ident i = y \<and> DeliveryItem.delivery_id (body i) = delivery_id')" by simp
    then have "find_one (\<lambda>d. ident d = y \<and> DeliveryItem.delivery_id (body d) = delivery_id')
                 (db_deliveryitem w1) = None"
      by (simp add: find_None_iff)
    with a show "receive_items delivery_id' (pre @ it # post) clock w
          = (Inl (HTTPException 400
                    (''Item '' @ itemId it @ '' not found for this delivery'')), w1)"
      using step receive_entry_missing by blast
  next
    fix y assume a: "oid (itemId it) = Inr y
           \<and> (\<exists>i\<in>set (db_deliveryitem w).
                   ident i = y \<and> DeliveryItem.delivery_id (body i) = delivery_id')
           \<and> qty it < 0"
    with bel have "\<exists>i\<in>set (db_deliveryitem w1).
                   ident i = y \<and> DeliveryItem.delivery_id (body i) = delivery_id'" by simp
    then obtain item where
      "find_one (\<lambda>d. ident d = y \<and> DeliveryItem.delivery_id (body d) = delivery_id')
                 (db_deliveryitem w1) = Some item"
      by (cases "find_one (\<lambda>d. ident d = y \<and> DeliveryItem.delivery_id (body d) = delivery_id')
                 (db_deliveryitem w1)") (auto simp: find_None_iff)
    with a show "receive_items delivery_id' (pre @ it # post) clock w
          = (Inl (HTTPException 400 ''qty must be >= 0''), w1)"
      using step receive_entry_negative by blast
  qed
qed

theorem receive_items_aborts_at_first_bad_entry_witness:
  "oid ''aaaaaaaaaaaaaaaaaaaaaaaa'' = Inr (ObjectId ''aaaaaaaaaaaaaaaaaaaaaaaa'')
   \<and> find_one (by_id (ObjectId ''aaaaaaaaaaaaaaaaaaaaaaaa'')) (db_delivery example_world)
       = Some example_delivery
   \<and> receive_loop ''aaaaaaaaaaaaaaaaaaaaaaaa'' example_clock 0
         [\<lparr>itemId = ''bbbbbbbbbbbbbbbbbbbbbbbb'', qty = 25\<rparr>] 0 example_world
       = (Inr 25, example_world_partial)
   \<and> receive_items ''aaaaaaaaaaaaaaaaaaaaaaaa''
         ([\<lparr>itemId = ''bbbbbbbbbbbbbbbbbbbbbbbb'', qty = 25\<rparr>]
          @ \<lparr>itemId = ''not-an-id'', qty = 1\<rparr>
          # [\<lparr>itemId = ''bbbbbbbbbbbbbbbbbbbbbbbb'', qty = 1\<rparr>]) example_clock example_world
       = (Inl (HTTPException 400 ''Invalid ID''), example_world_partial)
   \<and> receive_items ''aaaaaaaaaaaaaaaaaaaaaaaa''
         ([\<lparr>itemId = ''bbbbbbbbbbbbbbbbbbbbbbbb'', qty = 25\<rparr>]
          @ \<lparr>itemId = ''cccccccccccccccccccccccc'', qty = 3\<rparr>
          # [\<lparr>itemId = ''bbbbbbbbbbbbbbbbbbbbbbbb'', qty = 1\<rparr>]) example_clock example_world
       = (Inl (HTTPException 400
                 (''Item '' @ ''cccccccccccccccccccccccc'' @ '' not found for this delivery'')),
          example_world_partial)
   \<and> receive_items ''aaaaaaaaaaaaaaaaaaaaaaaa''
         ([\<lparr>itemId = ''bbbbbbbbbbbbbbbbbbbbbbbb'', qty = 25\<rparr>]
          @ \<lparr>itemId = ''bbbbbbbbbbbbbbbbbbbbbbbb'', qty = - 1\<rparr>
          # [\<lparr>itemId = ''bbbbbbbbbbbbbbbbbbbbbbbb'', qty = 1\<rparr>]) example_clock example_world
       = (Inl (HTTPException 400 ''qty must be >= 0''), example_world_partial)
   \<and> DeliveryItem.receivedQty (body example_item) = 0
   \<and> map (\<lambda>i. DeliveryItem.receivedQty (body i)) (db_deliveryitem example_world_partial) = [25]"
proof -
  have d: "find_one (by_id (ObjectId ''aaaaaaaaaaaaaaaaaaaaaaaa'')) (db_delivery example_world)
             = Some example_delivery"
    by (simp add: example_defs by_id_def)
  note T = receive_items_aborts_at_first_bad_entry[OF oid_example_delivery d example_loop]
  have bad1: "oid (itemId \<lparr>itemId = ''not-an-id'', qty = 1\<rparr>)
                = Inl (HTTPException 400 ''Invalid ID'')"
    by (simp add: oid_def ObjectId_parse_def)
  have bad2: "oid (itemId \<lparr>itemId = ''cccccccccccccccccccccccc'', qty = 3\<rparr>)
                = Inr (ObjectId ''cccccccccccccccccccccccc'')
              \<and> \<not> (\<exists>i\<in>set (db_deliveryitem example_world).
                      ident i = ObjectId ''cccccccccccccccccccccccc''
                      \<and> DeliveryItem.delivery_id (body i) = ''aaaaaaaaaaaaaaaaaaaaaaaa'')"
    by (simp add: oid_def ObjectId_parse_def hexdigits_def hex_lower_def whitespace_def example_defs)
  have bad3: "oid (itemId \<lparr>itemId = ''bbbbbbbbbbbbbbbbbbbbbbbb'', qty = - 1\<rparr>)
                = Inr (ObjectId ''bbbbbbbbbbbbbbbbbbbbbbbb'')
              \<and> (\<exists>i\<in>set (db_deliveryitem example_world).
                      ident i = ObjectId ''bbbbbbbbbbbbbbbbbbbbbbbb''
                      \<and> DeliveryItem.delivery_id (body i) = ''aaaaaaaaaaaaaaaaaaaaaaaa'')
              \<and> qty \<lparr>itemId = ''bbbbbbbbbbbbbbbbbbbbbbbb'', qty = - 1\<rparr> < 0"
    by (simp add: oid_example_item example_defs)
  have q: "DeliveryItem.receivedQty (body example_item) = 0"
    "map (\<lambda>i. DeliveryItem.receivedQty (body i)) (db_deliveryitem example_world_partial) = [25]"
    by (simp_all add: example_defs received_defs)
  from T[of "\<lparr>itemId = ''not-an-id'', qty = 1\<rparr>"
            "[\<lparr>itemId = ''bbbbbbbbbbbbbbbbbbbbbbbb'', qty = 1\<rparr>]"] bad1
  have r1: "receive_items ''aaaaaaaaaaaaaaaaaaaaaaaa''
         ([\<lparr>itemId = ''bbbbbbbbbbbbbbbbbbbbbbbb'', qty = 25\<rparr>]
          @ \<lparr>itemId = ''not-an-id'', qty = 1\<rparr>
          # [\<lparr>itemId = ''bbbbbbbbbbbbbbbbbbbbbbbb'', qty = 1\<rparr>]) example_clock example_world
       = (Inl (HTTPException 400 ''Invalid ID''), example_world_partial)"
    by blast
  from T[of "\<lparr>itemId = ''cccccccccccccccccccccccc'', qty = 3\<rparr>"
            "[\<lparr>itemId = ''bbbbbbbbbbbbbbbbbbbbbbbb'', qty = 1\<rparr>]"] bad2
  have r2: "receive_items ''aaaaaaaaaaaaaaaaaaaaaaaa''
         ([\<lparr>itemId = ''bbbbbbbbbbbbbbbbbbbbbbbb'', qty = 25\<rparr>]
          @ \<lparr>itemId = ''cccccccccccccccccccccccc'', qty = 3\<rparr>
          # [\<lparr>itemId = ''bbbbbbbbbbbbbbbbbbbbbbbb'', qty = 1\<rparr>]) example_clock example_world
       = (Inl (HTTPException 400
                 (''Item '' @ ''cccccccccccccccccccccccc'' @ '' not found for this delivery'')),
          example_world_partial)"
    by auto
  from T[of "\<lparr>itemId = ''bbbbbbbbbbbbbbbbbbbbbbbb'', qty = - 1\<rparr>"
            "[\<lparr>itemId = ''bbbbbbbbbbbbbbbbbbbbbbbb'', qty = 1\<rparr>]"] bad3
  have r3: "receive_items ''aaaaaaaaaaaaaaaaaaaaaaaa''
         ([\<lparr>itemId = ''bbbbbbbbbbbbbbbbbbbbbbbb'', qty = 25\<rparr>]
          @ \<lparr>itemId = ''bbbbbbbbbbbbbbbbbbbbbbbb'', qty = - 1\<rparr>
          # [\<lparr>itemId = ''bbbbbbbbbbbbbbbbbbbbbbbb'', qty = 1\<rparr>]) example_clock example_world
       = (Inl (HTTPException 400 ''qty must be >= 0''), example_world_partial)"
    by blast
  from oid_example_delivery d example_loop r1 r2 r3 q show ?thesis by blast
qed

lemma find_one_map_preserving:
  "(\<And>i. q (g i) = q i) \<Longrightarrow> find_one q (map g xs) = map_option g (find_one q xs)"
  by (induction xs) auto

lemma distinct_ident_unique:
  "distinct (map ident xs) \<Longrightarrow> a \<in> set xs \<Longrightarrow> b \<in> set xs \<Longrightarrow> ident a = ident b \<Longrightarrow> a = b"
  by (meson distinct_map inj_onD)

lemma find_one_member:
  "find_one q xs = Some a \<Longrightarrow> a \<in> set xs \<and> q a"
  by (induction xs) (auto split: if_splits)

lemma receive_entry_effect:
  assumes "distinct (map ident (db_deliveryitem w))"
    and "oid (itemId it) = Inr y"
    and "find_one (\<lambda>d. ident d = y \<and> DeliveryItem.delivery_id (body d) = delivery_id')
           (db_deliveryitem w) = Some item"
    and "0 \<le> qty it"
    and "int64 (DeliveryItem.receivedQty (body item) + qty it)"
  shows "receive_entry delivery_id' now it w =
           (Inr (),
            w\<lparr>db_deliveryitem :=
                map (\<lambda>i. if ident i = y
                          then i\<lparr>updated_at := now,
                                 body := (body i)\<lparr>DeliveryItem.receivedQty :=
                                                    DeliveryItem.receivedQty (body i) + qty it,
                                                  DeliveryItem.status :=
                                                    (if qty it > 0 then ''RECEIVED''
                                                     else DeliveryItem.status (body i))\<rparr>\<rparr>
                          else i)
                  (db_deliveryitem w)\<rparr>)"
proof -
  from find_one_member[OF assms(3)] have m: "item \<in> set (db_deliveryitem w)" "ident item = y"
    by simp_all
  have same: "map (\<lambda>i. if ident i = y
                    then i\<lparr>updated_at := now,
                           body := (body i)\<lparr>DeliveryItem.receivedQty :=
                                              DeliveryItem.receivedQty (body item) + qty it,
                                            DeliveryItem.status :=
                                              (if qty it > 0 then ''RECEIVED''
                                               else DeliveryItem.status (body item))\<rparr>\<rparr>
                    else i) (db_deliveryitem w)
            = map (\<lambda>i. if ident i = y
                    then i\<lparr>updated_at := now,
                           body := (body i)\<lparr>DeliveryItem.receivedQty :=
                                              DeliveryItem.receivedQty (body i) + qty it,
                                            DeliveryItem.status :=
                                              (if qty it > 0 then ''RECEIVED''
                                               else DeliveryItem.status (body i))\<rparr>\<rparr>
                    else i) (db_deliveryitem w)"
  proof (rule map_cong[OF refl])
    fix i assume i: "i \<in> set (db_deliveryitem w)"
    show "(if ident i = y
           then i\<lparr>updated_at := now,
                  body := (body i)\<lparr>DeliveryItem.receivedQty :=
                                     DeliveryItem.receivedQty (body item) + qty it,
                                   DeliveryItem.status :=
                                     (if qty it > 0 then ''RECEIVED''
                                      else DeliveryItem.status (body item))\<rparr>\<rparr>
           else i)
        = (if ident i = y
           then i\<lparr>updated_at := now,
                  body := (body i)\<lparr>DeliveryItem.receivedQty :=
                                     DeliveryItem.receivedQty (body i) + qty it,
                                   DeliveryItem.status :=
                                     (if qty it > 0 then ''RECEIVED''
                                      else DeliveryItem.status (body i))\<rparr>\<rparr>
           else i)"
    proof (cases "ident i = y")
      case True
      with m i assms(1) have "i = item" by (metis distinct_ident_unique)
      then show ?thesis by simp
    next
      case False
      then show ?thesis by simp
    qed
  qed
  from receive_entry_applied[OF assms(2,3,4,5), of now] m(2)
       update_one_distinct[OF assms(1), of y] same
  show ?thesis by simp
qed





section \<open>Whole batches\<close>




text \<open>
  The handler against the description by applied entries: one entry first, then the loop
  from any point of a batch.
\<close>

lemma list_all2_member_right:
  "list_all2 P xs ys \<Longrightarrow> y \<in> set ys \<Longrightarrow> \<exists>x\<in>set xs. P x y"
  by (induction rule: list_all2_induct) auto

lemma list_all2_member_left:
  "list_all2 P xs ys \<Longrightarrow> x \<in> set xs \<Longrightarrow> \<exists>y\<in>set ys. P x y"
  by (induction rule: list_all2_induct) auto

lemma list_all2_same_map:
  "list_all2 (\<lambda>a b. f b = f a) xs ys \<Longrightarrow> map f ys = map f xs"
  by (induction rule: list_all2_induct) auto

lemma received_for_snoc:
  "oid (itemId it) = Inr y \<Longrightarrow>
   received_for z (pre @ [it]) = received_for z pre + (if z = y then qty it else 0)"
  by (auto simp: received_for_def)

lemma received_positive_snoc:
  "oid (itemId it) = Inr y \<Longrightarrow>
   received_positive z (pre @ [it]) \<longleftrightarrow> received_positive z pre \<or> (z = y \<and> 0 < qty it)"
  by (auto simp: received_positive_def)

lemma spec_item_after_ident:
  "list_all2 (spec_item_after pre) xs ys \<Longrightarrow> map ident ys = map ident xs"
  by (rule list_all2_same_map) (erule list_all2_mono, simp add: spec_item_after_def)

lemma receive_entry_refines:
  assumes d0: "distinct (map ident (db_deliveryitem w0))"
    and rel: "list_all2 (spec_item_after pre) (db_deliveryitem w0) (db_deliveryitem w)"
  shows "(spec_entry_applies delivery_id' w0 pre it \<longrightarrow>
            (\<exists>w1. receive_entry delivery_id' now it w = (Inr (), w1)
               \<and> list_all2 (spec_item_after (pre @ [it])) (db_deliveryitem w0) (db_deliveryitem w1)))
       \<and> (\<not> spec_entry_applies delivery_id' w0 pre it \<longrightarrow>
            (\<exists>e. receive_entry delivery_id' now it w = (Inl e, w)))"
proof (cases "oid (itemId it)")
  case (Inl e)
  then show ?thesis
    by (simp add: spec_entry_applies_def receive_entry_invalid)
next
  case (Inr y)
  let ?Q = "\<lambda>d::(objectid, DeliveryItem) document.
              ident d = y \<and> DeliveryItem.delivery_id (body d) = delivery_id'"
  from spec_item_after_ident[OF rel] d0 have d: "distinct (map ident (db_deliveryitem w))" by simp
  show ?thesis
  proof (cases "find_one ?Q (db_deliveryitem w)")
    case None
    have "\<not> (\<exists>i\<in>set (db_deliveryitem w0). ?Q i)"
    proof
      assume "\<exists>i\<in>set (db_deliveryitem w0). ?Q i"
      then obtain i where i: "i \<in> set (db_deliveryitem w0)" "?Q i" by blast
      from list_all2_member_left[OF rel i(1)] obtain i' where
        "i' \<in> set (db_deliveryitem w)" "spec_item_after pre i i'" by blast
      with i(2) have "\<exists>i'\<in>set (db_deliveryitem w). ?Q i'"
        by (auto simp: spec_item_after_def)
      with None show False by (auto simp: find_None_iff)
    qed
    then have "\<not> spec_entry_applies delivery_id' w0 pre it"
      by (auto simp: spec_entry_applies_def Inr list_ex_iff)
    with receive_entry_missing[OF Inr None] show ?thesis by blast
  next
    case (Some item)
    from find_one_member[OF Some] have im: "item \<in> set (db_deliveryitem w)" "?Q item"
      by simp_all
    from list_all2_member_right[OF rel im(1)] obtain i0 where
      i0: "i0 \<in> set (db_deliveryitem w0)" "spec_item_after pre i0 item" by blast
    with im(2) have k0: "ident i0 = y" "DeliveryItem.delivery_id (body i0) = delivery_id'"
      and v: "DeliveryItem.receivedQty (body item)
                = DeliveryItem.receivedQty (body i0) + received_for y pre"
      by (auto simp: spec_item_after_def)
    have ex: "list_ex (\<lambda>i. ident i = y \<and> DeliveryItem.delivery_id (body i) = delivery_id'
                        \<and> int64 (DeliveryItem.receivedQty (body i) + received_for y pre + qty it))
               (db_deliveryitem w0)
          \<longleftrightarrow> int64 (DeliveryItem.receivedQty (body item) + qty it)"
    proof
      assume "list_ex (\<lambda>i. ident i = y \<and> DeliveryItem.delivery_id (body i) = delivery_id'
                        \<and> int64 (DeliveryItem.receivedQty (body i) + received_for y pre + qty it))
               (db_deliveryitem w0)"
      then obtain i where i: "i \<in> set (db_deliveryitem w0)" "ident i = y"
        "int64 (DeliveryItem.receivedQty (body i) + received_for y pre + qty it)"
        by (auto simp: list_ex_iff)
      with i0(1) k0(1) d0 have "i = i0" by (metis distinct_ident_unique)
      with i(3) v show "int64 (DeliveryItem.receivedQty (body item) + qty it)" by simp
    next
      assume "int64 (DeliveryItem.receivedQty (body item) + qty it)"
      with v i0(1) k0 show "list_ex (\<lambda>i. ident i = y
                        \<and> DeliveryItem.delivery_id (body i) = delivery_id'
                        \<and> int64 (DeliveryItem.receivedQty (body i) + received_for y pre + qty it))
               (db_deliveryitem w0)"
        by (auto simp: list_ex_iff)
    qed
    then have ap: "spec_entry_applies delivery_id' w0 pre it
                    \<longleftrightarrow> 0 \<le> qty it \<and> int64 (DeliveryItem.receivedQty (body item) + qty it)"
      by (simp add: spec_entry_applies_def Inr)
    show ?thesis
    proof (cases "0 \<le> qty it \<and> int64 (DeliveryItem.receivedQty (body item) + qty it)")
      case False
      then have "qty it < 0 \<or> (0 \<le> qty it
                   \<and> \<not> int64 (DeliveryItem.receivedQty (body item) + qty it))" by auto
      then have "\<exists>e. receive_entry delivery_id' now it w = (Inl e, w)"
        using receive_entry_negative[OF Inr Some] receive_entry_overflow[OF Inr Some]
        by blast
      with False ap show ?thesis by blast
    next
      case True
      define g where "g = (\<lambda>i::(objectid, DeliveryItem) document. if ident i = y
                          then i\<lparr>updated_at := now,
                                 body := (body i)\<lparr>DeliveryItem.receivedQty :=
                                                    DeliveryItem.receivedQty (body i) + qty it,
                                                  DeliveryItem.status :=
                                                    (if qty it > 0 then ''RECEIVED''
                                                     else DeliveryItem.status (body i))\<rparr>\<rparr>
                          else i)"
      from True have e: "receive_entry delivery_id' now it w
                           = (Inr (), w\<lparr>db_deliveryitem := map g (db_deliveryitem w)\<rparr>)"
        unfolding g_def using receive_entry_effect[OF d Inr Some] by simp
      have "list_all2 (\<lambda>i i'. spec_item_after (pre @ [it]) i (g i'))
              (db_deliveryitem w0) (db_deliveryitem w)"
        using rel
        by (rule list_all2_mono)
           (auto simp: spec_item_after_def g_def received_for_snoc[OF Inr]
              received_positive_snoc[OF Inr])
      then have "list_all2 (spec_item_after (pre @ [it])) (db_deliveryitem w0)
                   (db_deliveryitem (w\<lparr>db_deliveryitem := map g (db_deliveryitem w)\<rparr>))"
        by (simp add: list_all2_map2)
      with e True ap show ?thesis by blast
    qed
  qed
qed

lemma receive_loop_refines:
  assumes "distinct (map ident (db_deliveryitem w0))"
    and "list_all2 (spec_item_after pre) (db_deliveryitem w0) (db_deliveryitem w)"
  shows "list_all2 (spec_item_after (spec_applied_entries delivery_id' w0 pre its))
           (db_deliveryitem w0)
           (db_deliveryitem (snd (receive_loop delivery_id' clock k its tot w)))"
  using assms
proof (induction its arbitrary: pre w k tot)
  case Nil
  then show ?case by simp
next
  case (Cons it its)
  note step = receive_entry_refines[OF Cons.prems, of delivery_id' it "clock k"]
  show ?case
  proof (cases "spec_entry_applies delivery_id' w0 pre it")
    case True
    with step obtain w1 where
      e: "receive_entry delivery_id' (clock k) it w = (Inr (), w1)"
      and r: "list_all2 (spec_item_after (pre @ [it])) (db_deliveryitem w0) (db_deliveryitem w1)"
      by blast
    from Cons.IH[OF Cons.prems(1) r, of "Suc k" "tot + qty it"] e True
    show ?thesis by simp
  next
    case False
    with step obtain e where "receive_entry delivery_id' (clock k) it w = (Inl e, w)"
      by blast
    with False Cons.prems(2) show ?thesis by simp
  qed
qed

lemma spec_item_after_start:
  "list_all2 (spec_item_after []) xs xs"
  by (rule list_all2_refl) (simp add: spec_item_after_def received_for_def received_positive_def)

text \<open>
  An entry for a stored item of the delivery whose quantity is not negative is still
  refused when the new \<open>receivedQty\<close> does not fit eight bytes: with quantity
  \<open>2 ^ 63\<close> for the example item the request ends in \<open>OverflowError\<close>, and the item keeps
  its \<open>receivedQty\<close> 0 and its status.
\<close>

theorem receive_items_entry_beyond_range:
  "find_one (by_id (ObjectId ''bbbbbbbbbbbbbbbbbbbbbbbb'')) (db_deliveryitem example_world)
     = Some example_item
   \<and> DeliveryItem.delivery_id (body example_item) = ''aaaaaaaaaaaaaaaaaaaaaaaa''
   \<and> (0::int) \<le> qty \<lparr>itemId = ''bbbbbbbbbbbbbbbbbbbbbbbb'', qty = 9223372036854775808\<rparr>
   \<and> receive_items ''aaaaaaaaaaaaaaaaaaaaaaaa''
         [\<lparr>itemId = ''bbbbbbbbbbbbbbbbbbbbbbbb'', qty = 9223372036854775808\<rparr>]
         example_clock example_world
       = (Inl OverflowError, example_world)
   \<and> db_deliveryitem example_world = [example_item]
   \<and> DeliveryItem.receivedQty (body example_item) = 0
   \<and> DeliveryItem.status (body example_item) = ''STORED''"
  by (simp add: receive_items_def receive_entry_def oid_example_delivery oid_example_item
      by_id_def int64_def example_defs)

text \<open>
  C2. In a request for a stored delivery the entries that apply are the longest prefix of
  the batch in which every entry has an \<open>itemId\<close> that parses, a \<open>qty\<close> that is not
  negative, and a stored item of that identifier and of the request's \<open>delivery_id\<close>
  whose \<open>receivedQty\<close> plus the quantities applied to it so far plus this \<open>qty\<close> fits
  eight bytes. Whether the request then completes or not, every stored item has its
  \<open>receivedQty\<close> increased by the quantities of the applied entries that name it; its
  status is \<open>RECEIVED\<close> if one of them was positive, whatever it was before, and is
  unchanged if all of them were 0 or none named it; its identifier, \<open>delivery_id\<close> and
  \<open>expectedQty\<close> are unchanged; and no item is added, removed or reordered.
\<close>

theorem receive_items_applies_entries:
  assumes "distinct (map ident (db_deliveryitem w))"
    and "oid delivery_id' = Inr x"
    and "find_one (by_id x) (db_delivery w) = Some d"
  shows "list_all2 (spec_item_after (spec_applied_entries delivery_id' w [] payload))
           (db_deliveryitem w)
           (db_deliveryitem (snd (receive_items delivery_id' payload clock w)))"
proof -
  obtain rl w1 where l: "receive_loop delivery_id' clock 0 payload 0 w = (rl, w1)"
    by (cases "receive_loop delivery_id' clock 0 payload 0 w")
  from receive_loop_refines[OF assms(1) spec_item_after_start, of delivery_id' payload clock 0 0] l
  have r: "list_all2 (spec_item_after (spec_applied_entries delivery_id' w [] payload))
             (db_deliveryitem w) (db_deliveryitem w1)"
    by simp
  have "db_deliveryitem (snd (receive_items delivery_id' payload clock w)) = db_deliveryitem w1"
    using assms(2,3) l
    by (cases rl) (simp_all add: receive_items_def Let_def)
  with r show ?thesis by simp
qed

theorem receive_items_applies_entries_witness:
  "distinct (map ident (db_deliveryitem example_world))
   \<and> oid ''aaaaaaaaaaaaaaaaaaaaaaaa'' = Inr (ObjectId ''aaaaaaaaaaaaaaaaaaaaaaaa'')
   \<and> find_one (by_id (ObjectId ''aaaaaaaaaaaaaaaaaaaaaaaa'')) (db_delivery example_world)
       = Some example_delivery
   \<and> spec_applied_entries ''aaaaaaaaaaaaaaaaaaaaaaaa'' example_world []
         [\<lparr>itemId = ''bbbbbbbbbbbbbbbbbbbbbbbb'', qty = 25\<rparr>,
          \<lparr>itemId = ''bbbbbbbbbbbbbbbbbbbbbbbb'', qty = 0\<rparr>,
          \<lparr>itemId = ''bbbbbbbbbbbbbbbbbbbbbbbb'', qty = - 1\<rparr>,
          \<lparr>itemId = ''bbbbbbbbbbbbbbbbbbbbbbbb'', qty = 7\<rparr>]
       = [\<lparr>itemId = ''bbbbbbbbbbbbbbbbbbbbbbbb'', qty = 25\<rparr>,
          \<lparr>itemId = ''bbbbbbbbbbbbbbbbbbbbbbbb'', qty = 0\<rparr>]
   \<and> list_all2
         (spec_item_after [\<lparr>itemId = ''bbbbbbbbbbbbbbbbbbbbbbbb'', qty = 25\<rparr>,
                      \<lparr>itemId = ''bbbbbbbbbbbbbbbbbbbbbbbb'', qty = 0\<rparr>])
         (db_deliveryitem example_world)
         (db_deliveryitem (snd (receive_items ''aaaaaaaaaaaaaaaaaaaaaaaa''
            [\<lparr>itemId = ''bbbbbbbbbbbbbbbbbbbbbbbb'', qty = 25\<rparr>,
             \<lparr>itemId = ''bbbbbbbbbbbbbbbbbbbbbbbb'', qty = 0\<rparr>,
             \<lparr>itemId = ''bbbbbbbbbbbbbbbbbbbbbbbb'', qty = - 1\<rparr>,
             \<lparr>itemId = ''bbbbbbbbbbbbbbbbbbbbbbbb'', qty = 7\<rparr>] example_clock example_world)))
   \<and> map (\<lambda>i. (DeliveryItem.receivedQty (body i), DeliveryItem.status (body i)))
         (db_deliveryitem example_world) = [(0, ''STORED'')]
   \<and> map (\<lambda>i. (DeliveryItem.receivedQty (body i), DeliveryItem.status (body i)))
         (db_deliveryitem (snd (receive_items ''aaaaaaaaaaaaaaaaaaaaaaaa''
            [\<lparr>itemId = ''bbbbbbbbbbbbbbbbbbbbbbbb'', qty = 25\<rparr>,
             \<lparr>itemId = ''bbbbbbbbbbbbbbbbbbbbbbbb'', qty = 0\<rparr>,
             \<lparr>itemId = ''bbbbbbbbbbbbbbbbbbbbbbbb'', qty = - 1\<rparr>,
             \<lparr>itemId = ''bbbbbbbbbbbbbbbbbbbbbbbb'', qty = 7\<rparr>] example_clock example_world)))
       = [(25, ''RECEIVED'')]
   \<and> map (\<lambda>i. (DeliveryItem.receivedQty (body i), DeliveryItem.status (body i)))
         (db_deliveryitem (snd (receive_items ''aaaaaaaaaaaaaaaaaaaaaaaa''
            [\<lparr>itemId = ''bbbbbbbbbbbbbbbbbbbbbbbb'', qty = 0\<rparr>] example_clock example_world)))
       = [(0, ''STORED'')]"
proof -
  have ds: "distinct (map ident (db_deliveryitem example_world))"
    by (simp add: example_defs)
  have d: "find_one (by_id (ObjectId ''aaaaaaaaaaaaaaaaaaaaaaaa'')) (db_delivery example_world)
             = Some example_delivery"
    by (simp add: example_defs by_id_def)
  have ap: "spec_applied_entries ''aaaaaaaaaaaaaaaaaaaaaaaa'' example_world []
         [\<lparr>itemId = ''bbbbbbbbbbbbbbbbbbbbbbbb'', qty = 25\<rparr>,
          \<lparr>itemId = ''bbbbbbbbbbbbbbbbbbbbbbbb'', qty = 0\<rparr>,
          \<lparr>itemId = ''bbbbbbbbbbbbbbbbbbbbbbbb'', qty = - 1\<rparr>,
          \<lparr>itemId = ''bbbbbbbbbbbbbbbbbbbbbbbb'', qty = 7\<rparr>]
       = [\<lparr>itemId = ''bbbbbbbbbbbbbbbbbbbbbbbb'', qty = 25\<rparr>,
          \<lparr>itemId = ''bbbbbbbbbbbbbbbbbbbbbbbb'', qty = 0\<rparr>]"
    by (simp add: spec_entry_applies_def oid_example_item received_for_def int64_def example_defs)
  note T = receive_items_applies_entries[OF ds oid_example_delivery d,
      of "[\<lparr>itemId = ''bbbbbbbbbbbbbbbbbbbbbbbb'', qty = 25\<rparr>,
           \<lparr>itemId = ''bbbbbbbbbbbbbbbbbbbbbbbb'', qty = 0\<rparr>,
           \<lparr>itemId = ''bbbbbbbbbbbbbbbbbbbbbbbb'', qty = - 1\<rparr>,
           \<lparr>itemId = ''bbbbbbbbbbbbbbbbbbbbbbbb'', qty = 7\<rparr>]" example_clock]
  have before: "map (\<lambda>i. (DeliveryItem.receivedQty (body i), DeliveryItem.status (body i)))
         (db_deliveryitem example_world) = [(0, ''STORED'')]"
    by (simp add: example_defs)
  have after: "map (\<lambda>i. (DeliveryItem.receivedQty (body i), DeliveryItem.status (body i)))
         (db_deliveryitem (snd (receive_items ''aaaaaaaaaaaaaaaaaaaaaaaa''
            [\<lparr>itemId = ''bbbbbbbbbbbbbbbbbbbbbbbb'', qty = 25\<rparr>,
             \<lparr>itemId = ''bbbbbbbbbbbbbbbbbbbbbbbb'', qty = 0\<rparr>,
             \<lparr>itemId = ''bbbbbbbbbbbbbbbbbbbbbbbb'', qty = - 1\<rparr>,
             \<lparr>itemId = ''bbbbbbbbbbbbbbbbbbbbbbbb'', qty = 7\<rparr>] example_clock example_world)))
       = [(25, ''RECEIVED'')]"
    by (simp add: receive_items_def receive_entry_def oid_example_delivery oid_example_item
        by_id_def int64_def example_defs received_defs)
  have zero: "map (\<lambda>i. (DeliveryItem.receivedQty (body i), DeliveryItem.status (body i)))
         (db_deliveryitem (snd (receive_items ''aaaaaaaaaaaaaaaaaaaaaaaa''
            [\<lparr>itemId = ''bbbbbbbbbbbbbbbbbbbbbbbb'', qty = 0\<rparr>] example_clock example_world)))
       = [(0, ''STORED'')]"
    by (simp add: receive_items_def receive_entry_def oid_example_delivery oid_example_item
        by_id_def aggregate_def int64_def example_defs received_defs)
  from T ap have "list_all2
         (spec_item_after [\<lparr>itemId = ''bbbbbbbbbbbbbbbbbbbbbbbb'', qty = 25\<rparr>,
                      \<lparr>itemId = ''bbbbbbbbbbbbbbbbbbbbbbbb'', qty = 0\<rparr>])
         (db_deliveryitem example_world)
         (db_deliveryitem (snd (receive_items ''aaaaaaaaaaaaaaaaaaaaaaaa''
            [\<lparr>itemId = ''bbbbbbbbbbbbbbbbbbbbbbbb'', qty = 25\<rparr>,
             \<lparr>itemId = ''bbbbbbbbbbbbbbbbbbbbbbbb'', qty = 0\<rparr>,
             \<lparr>itemId = ''bbbbbbbbbbbbbbbbbbbbbbbb'', qty = - 1\<rparr>,
             \<lparr>itemId = ''bbbbbbbbbbbbbbbbbbbbbbbb'', qty = 7\<rparr>] example_clock example_world)))"
    by simp
  with ds oid_example_delivery d ap before after zero show ?thesis by blast
qed




end
